theory Spec2Isabelle
  imports Complex_Main
begin

section \<open>Values shared by both source files\<close>

text \<open>
  A JavaScript \<^verbatim>\<open>number\<close> is modelled as a real: the arithmetic of \<^verbatim>\<open>describe\<close> is the
  exact one, so rounding, \<^verbatim>\<open>NaN\<close> and the infinities of IEEE-754 are outside the model.
  No property below is about the numbers \<^verbatim>\<open>describe\<close> computes: of \<^verbatim>\<open>describe\<close> they use
  the guard on the empty input and the order of its calls only.

  A rejected promise and a \<^verbatim>\<open>throw\<close> are the left injection of a sum. What is thrown is
  either one of the two errors this code base raises itself (\<^verbatim>\<open>new Error(msg)\<close> in
  \<^verbatim>\<open>describe\<close>, the \<^verbatim>\<open>RangeError\<close> of \<^verbatim>\<open>String.prototype.repeat\<close> in \<^verbatim>\<open>writeHeader\<close>) or a
  value of the caller's or of the external library's own.
\<close>

datatype 'e thrown = Error string | RangeError | Thrown 'e

text \<open>
  An \<^verbatim>\<open>async\<close> function, and any call with an effect, is a function of the state of the
  world \<open>'w\<close> that returns its outcome and the new state: \<open>Inr\<close> the resolved value, \<open>Inl\<close>
  what was thrown or rejected. The sequential \<^verbatim>\<open>await\<close>s of the source are the order in
  which the state is passed on.
\<close>

type_synonym ('a, 'e, 'w) promise = "'w \<Rightarrow> ('e thrown + 'a) \<times> 'w"

subsection \<open>lamp.ts: types\<close>

text \<open>
  \<^verbatim>\<open>ModelSettings\<close> with each optional field as an \<open>option\<close>. \<^verbatim>\<open>LMPConfig\<close> is the
  intersection type \<^verbatim>\<open>{ model } & ModelSettings & ObjectSettings\<close>, here the record
  extended by \<^verbatim>\<open>model\<close> and \<^verbatim>\<open>schema\<close>; the rest pattern
  \<^verbatim>\<open>{ model, schema, ...settings }\<close> of \<^verbatim>\<open>lamp\<close> is then \<open>ModelSettings.truncate\<close>.
  \<^verbatim>\<open>GenerateOptions\<close> is the object literal that \<^verbatim>\<open>generateText\<close> and \<^verbatim>\<open>generateObject\<close>
  receive: \<^verbatim>\<open>{ model, system, prompt, schema, ...settings }\<close>, where \<^verbatim>\<open>schema\<close> is absent
  (\<open>None\<close>) in the call of \<^verbatim>\<open>generateText\<close>. The abort signal, the headers, the model
  handle and the schema are opaque to this code and are type parameters.
\<close>

record ('sig, 'hdr) ModelSettings =
  maxTokens :: "real option"
  temperature :: "real option"
  topP :: "real option"
  topK :: "real option"
  presencePenalty :: "real option"
  frequencyPenalty :: "real option"
  stopSequences :: "string list option"
  seed :: "real option"
  maxRetries :: "real option"
  abortSignal :: "'sig option"
  headers :: "'hdr option"
  debug :: "bool option"

record ('sig, 'hdr, 'm, 'sch) LMPConfig = "('sig, 'hdr) ModelSettings" +
  model :: 'm
  schema :: "'sch option"

record ('sig, 'hdr, 'm, 'sch) GenerateOptions = "('sig, 'hdr, 'm, 'sch) LMPConfig" +
  system :: "string option"
  prompt :: string

record Usage =
  promptTokens :: real
  completionTokens :: real
  totalTokens :: real

text \<open>
  The result of a bound invoker has the shape of the local variable
  \<^verbatim>\<open>result: { text?: string; object?: U; usage: Usage }\<close>. A prompt function returns
  \<^verbatim>\<open>string | { system: string; prompt: string }\<close>.
\<close>

record 'u LMPFunctionResult =
  "text" :: "string option"
  object :: "'u option"
  usage :: Usage

datatype LMPPrompt = PromptString string | SystemAndPrompt string string

subsection \<open>output.ts\<close>

text \<open>
  \<^verbatim>\<open>process.stdout\<close>: the terminal width \<^verbatim>\<open>columns\<close> (\<^verbatim>\<open>undefined\<close> when the stream is not a
  terminal) and the chunks written so far. \<open>ToString\<close> is the conversion a template literal
  applies to an interpolated value, \<open>repeat\<close> is \<^verbatim>\<open>String.prototype.repeat\<close>: a count of
  \<^verbatim>\<open>NaN\<close> (here \<open>None\<close>, from \<^verbatim>\<open>undefined - 9\<close>) counts as 0 and a negative count throws a
  \<^verbatim>\<open>RangeError\<close>. \<^verbatim>\<open>writeln\<close> takes an optional string because the types are erased when the
  code runs and \<^verbatim>\<open>logMessages\<close> passes on what \<^verbatim>\<open>JSON.stringify\<close> returned.
\<close>

record Stdout =
  columns :: "int option"
  written :: "string list"

definition stdout_write :: "string \<Rightarrow> Stdout \<Rightarrow> Stdout" where
  "stdout_write chunk out = out\<lparr>written := written out @ [chunk]\<rparr>"

definition ToString :: "string option \<Rightarrow> string" where
  "ToString v = (case v of None \<Rightarrow> ''undefined'' | Some s \<Rightarrow> s)"

definition repeat :: "string \<Rightarrow> int option \<Rightarrow> 'e thrown + string" where
  "repeat s cnt =
     (case cnt of
        None \<Rightarrow> Inr ''''
      | Some n \<Rightarrow> if n < 0 then Inl RangeError else Inr (concat (replicate (nat n) s)))"

definition writeln :: "string option \<Rightarrow> Stdout \<Rightarrow> Stdout" where
  "writeln input out = stdout_write (ToString input @ ''\<newline>'') out"

definition writeHeader :: "string \<Rightarrow> Stdout \<Rightarrow> ('e thrown + unit) \<times> Stdout" where
  "writeHeader header out =
     (let width = map_option (\<lambda>c. c - int (length header) - 2) (columns out)
      in case repeat ''-'' width of
           Inl e \<Rightarrow> (Inl e, out)
         | Inr dashes \<Rightarrow>
             (Inr (), stdout_write (CHR 0x1B # ''[32m\<newline>--'' @ header @ dashes @ ''\<newline>'') out))"

subsection \<open>lamp.ts: functions\<close>

text \<open>
  The imports \<^verbatim>\<open>generateText\<close>, \<^verbatim>\<open>generateObject\<close> and \<^verbatim>\<open>JSON.stringify\<close> are parameters.
  The two capabilities return the fields the source destructures, as a pair. The prompt
  function is a function of its arguments alone. The state of a bound invoker is the state
  of the external world and \<^verbatim>\<open>process.stdout\<close>. \<open>truthy_string\<close> is the truthiness of a
  \<^verbatim>\<open>string | undefined\<close>.
\<close>

definition getObject ::
  "(('sig, 'hdr, 'm, 'sch) GenerateOptions \<Rightarrow> ('u \<times> Usage, 'e, 'w) promise)
   \<Rightarrow> 'm \<Rightarrow> string option \<Rightarrow> string \<Rightarrow> 'sch \<Rightarrow> ('sig, 'hdr) ModelSettings
   \<Rightarrow> ('u LMPFunctionResult, 'e, 'w) promise" where
  "getObject generateObject = (\<lambda>model system prompt schema settings w.
     case generateObject
            \<lparr>maxTokens = maxTokens settings, temperature = temperature settings,
             topP = topP settings, topK = topK settings,
             presencePenalty = presencePenalty settings,
             frequencyPenalty = frequencyPenalty settings,
             stopSequences = stopSequences settings, seed = seed settings,
             maxRetries = maxRetries settings, abortSignal = abortSignal settings,
             headers = headers settings, debug = debug settings,
             model = model, schema = Some schema, system = system, prompt = prompt\<rparr> w of
       (Inl e, w') \<Rightarrow> (Inl e, w')
     | (Inr (obj, u), w') \<Rightarrow> (Inr \<lparr>text = None, object = Some obj, usage = u\<rparr>, w'))"

definition getText ::
  "(('sig, 'hdr, 'm, 'sch) GenerateOptions \<Rightarrow> (string \<times> Usage, 'e, 'w) promise)
   \<Rightarrow> 'm \<Rightarrow> string option \<Rightarrow> string \<Rightarrow> ('sig, 'hdr) ModelSettings
   \<Rightarrow> ('u LMPFunctionResult, 'e, 'w) promise" where
  "getText generateText = (\<lambda>model system prompt settings w.
     case generateText
            \<lparr>maxTokens = maxTokens settings, temperature = temperature settings,
             topP = topP settings, topK = topK settings,
             presencePenalty = presencePenalty settings,
             frequencyPenalty = frequencyPenalty settings,
             stopSequences = stopSequences settings, seed = seed settings,
             maxRetries = maxRetries settings, abortSignal = abortSignal settings,
             headers = headers settings, debug = debug settings,
             model = model, schema = None, system = system, prompt = prompt\<rparr> w of
       (Inl e, w') \<Rightarrow> (Inl e, w')
     | (Inr (t, u), w') \<Rightarrow> (Inr \<lparr>text = Some t, object = None, usage = u\<rparr>, w'))"

definition truthy_string :: "string option \<Rightarrow> bool" where
  "truthy_string v = (case v of None \<Rightarrow> False | Some s \<Rightarrow> s \<noteq> '''')"

definition logMessages ::
  "string option \<Rightarrow> string \<Rightarrow> string option \<Rightarrow> Stdout \<Rightarrow> ('e thrown + unit) \<times> Stdout" where
  "logMessages = (\<lambda>system user output out.
     case writeHeader ''Prompt:'' out of
       (Inl e, out1) \<Rightarrow> (Inl e, out1)
     | (Inr ok, out1) \<Rightarrow>
         let out2 =
               (if truthy_string system
                then writeln (Some '''')
                       (writeln (Some (CHR 0x1B # ''[33msystem:'' @ CHR 0x1B # ''[0m '' @ ToString system))
                          out1)
                else out1);
             out3 = writeln (Some (CHR 0x1B # ''[33muser:'' @ CHR 0x1B # ''[0m '' @ user)) out2
         in (case writeHeader ''Output:'' out3 of
               (Inl e, out4) \<Rightarrow> (Inl e, out4)
             | (Inr ok, out4) \<Rightarrow> (Inr (), writeln output out4)))"

definition lamp ::
  "(('sig, 'hdr, 'm, 'sch) GenerateOptions \<Rightarrow> (string \<times> Usage, 'e, 'w) promise)
   \<Rightarrow> (('sig, 'hdr, 'm, 'sch) GenerateOptions \<Rightarrow> ('u \<times> Usage, 'e, 'w) promise)
   \<Rightarrow> ('u \<Rightarrow> string)
   \<Rightarrow> ('sig, 'hdr, 'm, 'sch) LMPConfig \<Rightarrow> ('a \<Rightarrow> LMPPrompt)
   \<Rightarrow> 'a \<Rightarrow> ('u LMPFunctionResult, 'e, 'w \<times> Stdout) promise" where
  "lamp generateText generateObject JSON_stringify config promptFn args = (\<lambda>(w, out).
     let model = LMPConfig.model config;
         schema = LMPConfig.schema config;
         settings = ModelSettings.truncate config;
         prompts = promptFn args;
         (system, prompt) =
           (case prompts of
              PromptString s \<Rightarrow> (None, s)
            | SystemAndPrompt s p \<Rightarrow> (Some s, p))
     in case (case schema of
                Some sch \<Rightarrow> getObject generateObject model system prompt sch settings w
              | None \<Rightarrow> getText generateText model system prompt settings w) of
          (Inl e, w') \<Rightarrow> (Inl e, (w', out))
        | (Inr result, w') \<Rightarrow>
            if debug settings = Some True
            then (case logMessages system prompt
                         (if truthy_string (text result) then text result
                          else map_option JSON_stringify (object result)) out of
                    (Inl e, out') \<Rightarrow> (Inl e, (w', out'))
                  | (Inr ok, out') \<Rightarrow> (Inr result, (w', out')))
            else (Inr result, (w', out)))"

subsection \<open>evaluate.ts\<close>

text \<open>
  The fields \<^verbatim>\<open>max\<close> and \<^verbatim>\<open>min\<close> of \<^verbatim>\<open>StatisticsResult\<close> are \<open>max_stat\<close> and \<open>min_stat\<close>.
\<close>

record StatisticsResult =
  average :: real
  median :: real
  std :: real
  max_stat :: real
  min_stat :: real

definition describe :: "real list \<Rightarrow> 'e thrown + StatisticsResult" where
  "describe numbers =
     (if length numbers = 0 then Inl (Error ''Input array is empty'')
      else
        let sortedNumbers = sort numbers;
            sum = foldl (\<lambda>acc val. acc + val) 0 sortedNumbers;
            average = sum / real (length sortedNumbers);
            middle = length sortedNumbers div 2;
            median =
              (if length sortedNumbers mod 2 = 0
               then (sortedNumbers ! (middle - 1) + sortedNumbers ! middle) / 2
               else sortedNumbers ! middle);
            squaredDifferences = map (\<lambda>num. (num - average) ^ 2) sortedNumbers;
            variance =
              foldl (\<lambda>acc val. acc + val) 0 squaredDifferences / real (length sortedNumbers);
            std = sqrt variance;
            max = sortedNumbers ! (length sortedNumbers - 1);
            min = sortedNumbers ! 0
        in Inr \<lparr>average = average, median = median, std = std,
                 max_stat = max, min_stat = min\<rparr>)"

text \<open>
  \<^verbatim>\<open>EvalConfig\<close> and \<^verbatim>\<open>Required<EvalConfig>\<close> are one record at two types: every field
  optional, and every field present. \<^verbatim>\<open>iterations\<close> is a \<^verbatim>\<open>number\<close>, so a real, compared with
  the loop counter as the source does. \<^verbatim>\<open>performance.now()\<close> reads a clock off the state of
  the world. \<open>run_locals\<close> are the five arrays \<^verbatim>\<open>run\<close> pushes to, \<open>trial\<close> is the body of its
  inner loop, \<open>for_iterations\<close> and \<open>for_testCases\<close> are the two loops, and \<open>with_values\<close> is
  the object literal \<^verbatim>\<open>{ values: xs, ...describe(xs) }\<close>.
\<close>

record 'p TestCase =
  input :: 'p
  "output" :: string

record ('i, 't, 'ev, 'b) EvalConfig_fields =
  iterations :: 'i
  testCases :: 't
  evaluator :: 'ev
  benchmark :: 'b

type_synonym ('p, 'u, 'e, 'w) evaluator_fn =
  "'p TestCase \<Rightarrow> 'u LMPFunctionResult \<Rightarrow> (real, 'e, 'w) promise"

type_synonym ('p, 'u, 'e, 'w) EvalConfig =
  "(real option, 'p TestCase list option, ('p, 'u, 'e, 'w) evaluator_fn option, bool option)
     EvalConfig_fields"

type_synonym ('p, 'u, 'e, 'w) Required_EvalConfig =
  "(real, 'p TestCase list, ('p, 'u, 'e, 'w) evaluator_fn, bool) EvalConfig_fields"

record Series = StatisticsResult +
  "values" :: "real list"

record ('p, 'u) EvalResult =
  scores :: Series
  executionTimes :: Series
  promptTokens :: Series
  completionTokens :: Series
  responses :: "'u LMPFunctionResult list"
  testCases :: "'p TestCase list"

record ('p, 'u, 'e, 'w) Evaluator =
  config :: "('p, 'u, 'e, 'w) Required_EvalConfig"

record 'u run_locals =
  scores :: "real list"
  responses :: "'u LMPFunctionResult list"
  promptTokens :: "real list"
  responseTokens :: "real list"
  executionTimes :: "real list"

definition Evaluator_constructor :: "('p, 'u, 'e, 'w) EvalConfig \<Rightarrow> ('p, 'u, 'e, 'w) Evaluator" where
  "Evaluator_constructor cfg =
     \<lparr>config =
        \<lparr>iterations = (case iterations cfg of None \<Rightarrow> 1 | Some v \<Rightarrow> v),
         EvalConfig_fields.testCases =
           (case EvalConfig_fields.testCases cfg of None \<Rightarrow> [] | Some v \<Rightarrow> v),
         evaluator = (case evaluator cfg of None \<Rightarrow> (\<lambda>tc r w. (Inr 0, w)) | Some v \<Rightarrow> v),
         benchmark = (case benchmark cfg of None \<Rightarrow> False | Some v \<Rightarrow> v)\<rparr>\<rparr>"

definition trial ::
  "('p, 'u, 'e, 'w) Evaluator \<Rightarrow> ('w \<Rightarrow> real) \<Rightarrow> ('p \<Rightarrow> ('u LMPFunctionResult, 'e, 'w) promise)
   \<Rightarrow> 'p TestCase \<Rightarrow> 'u run_locals \<Rightarrow> ('u run_locals, 'e, 'w) promise" where
  "trial this performance_now fn testCase locals w =
     (let startTime = performance_now w
      in case fn (input testCase) w of
           (Inl e, w1) \<Rightarrow> (Inl e, w1)
         | (Inr result, w1) \<Rightarrow>
             let endTime = performance_now w1;
                 locals1 = locals
                   \<lparr>run_locals.responses := run_locals.responses locals @ [result],
                    run_locals.promptTokens :=
                      run_locals.promptTokens locals @ [Usage.promptTokens (usage result)],
                    responseTokens :=
                      responseTokens locals @ [Usage.completionTokens (usage result)]\<rparr>;
                 locals2 =
                   (if benchmark (config this)
                    then locals1\<lparr>run_locals.executionTimes :=
                                   run_locals.executionTimes locals1 @ [endTime - startTime]\<rparr>
                    else locals1)
             in (case evaluator (config this) testCase result w1 of
                   (Inl e, w2) \<Rightarrow> (Inl e, w2)
                 | (Inr score, w2) \<Rightarrow>
                     (Inr (locals2\<lparr>run_locals.scores := run_locals.scores locals2 @ [score]\<rparr>),
                      w2)))"

function for_iterations ::
  "('p, 'u, 'e, 'w) Evaluator \<Rightarrow> ('w \<Rightarrow> real) \<Rightarrow> ('p \<Rightarrow> ('u LMPFunctionResult, 'e, 'w) promise)
   \<Rightarrow> 'p TestCase \<Rightarrow> nat \<Rightarrow> 'u run_locals \<Rightarrow> ('u run_locals, 'e, 'w) promise" where
  "for_iterations this performance_now fn testCase i locals w =
     (if real i < iterations (config this)
      then (case trial this performance_now fn testCase locals w of
              (Inl e, w') \<Rightarrow> (Inl e, w')
            | (Inr locals', w') \<Rightarrow>
                for_iterations this performance_now fn testCase (i + 1) locals' w')
      else (Inr locals, w))"
  by pat_completeness auto
termination
proof (relation "measure (\<lambda>(this, performance_now, fn, testCase, i, locals, w).
                   nat \<lceil>iterations (config this)\<rceil> - i)", goal_cases)
  case 1
  show ?case by simp
next
  case (2 this performance_now fn testCase i locals w x locals' w')
  from \<open>real i < iterations (config this)\<close>
  have "of_int (int i) < iterations (config this)" by simp
  then have "int i < \<lceil>iterations (config this)\<rceil>" by (simp only: less_ceiling_iff)
  then have "i < nat \<lceil>iterations (config this)\<rceil>" by linarith
  then show ?case by simp
qed

fun for_testCases ::
  "('p, 'u, 'e, 'w) Evaluator \<Rightarrow> ('w \<Rightarrow> real) \<Rightarrow> ('p \<Rightarrow> ('u LMPFunctionResult, 'e, 'w) promise)
   \<Rightarrow> 'p TestCase list \<Rightarrow> 'u run_locals \<Rightarrow> ('u run_locals, 'e, 'w) promise" where
  "for_testCases this performance_now fn [] locals w = (Inr locals, w)"
| "for_testCases this performance_now fn (testCase # rest) locals w =
     (case for_iterations this performance_now fn testCase 0 locals w of
        (Inl e, w') \<Rightarrow> (Inl e, w')
      | (Inr locals', w') \<Rightarrow> for_testCases this performance_now fn rest locals' w')"

definition with_values :: "real list \<Rightarrow> 'e thrown + StatisticsResult \<Rightarrow> 'e thrown + Series" where
  "with_values vs described =
     (case described of
        Inl e \<Rightarrow> Inl e
      | Inr d \<Rightarrow> Inr \<lparr>average = average d, median = median d, std = std d,
                       max_stat = max_stat d, min_stat = min_stat d, values = vs\<rparr>)"

definition run ::
  "('p, 'u, 'e, 'w) Evaluator \<Rightarrow> ('w \<Rightarrow> real) \<Rightarrow> ('p \<Rightarrow> ('u LMPFunctionResult, 'e, 'w) promise)
   \<Rightarrow> (('p, 'u) EvalResult, 'e, 'w) promise" where
  "run this performance_now fn w =
     (let tcs = (if length (EvalConfig_fields.testCases (config this)) > 0
                 then EvalConfig_fields.testCases (config this) else [])
      in case for_testCases this performance_now fn tcs
                \<lparr>run_locals.scores = [], run_locals.responses = [],
                 run_locals.promptTokens = [], responseTokens = [],
                 run_locals.executionTimes = []\<rparr> w of
           (Inl e, w') \<Rightarrow> (Inl e, w')
         | (Inr locals, w') \<Rightarrow>
             (case with_values (run_locals.scores locals) (describe (run_locals.scores locals)) of
                Inl e \<Rightarrow> (Inl e, w')
              | Inr scores_series \<Rightarrow>
             (case with_values (run_locals.executionTimes locals)
                     (describe (run_locals.executionTimes locals)) of
                Inl e \<Rightarrow> (Inl e, w')
              | Inr executionTimes_series \<Rightarrow>
             (case with_values (run_locals.promptTokens locals)
                     (describe (run_locals.promptTokens locals)) of
                Inl e \<Rightarrow> (Inl e, w')
              | Inr promptTokens_series \<Rightarrow>
             (case with_values (responseTokens locals) (describe (responseTokens locals)) of
                Inl e \<Rightarrow> (Inl e, w')
              | Inr completionTokens_series \<Rightarrow>
                  (Inr \<lparr>EvalResult.scores = scores_series,
                        EvalResult.executionTimes = executionTimes_series,
                        EvalResult.promptTokens = promptTokens_series,
                        EvalResult.completionTokens = completionTokens_series,
                        EvalResult.responses = run_locals.responses locals,
                        EvalResult.testCases = tcs\<rparr>, w'))))))"

definition lampEval :: "('p, 'u, 'e, 'w) EvalConfig \<Rightarrow> ('p, 'u, 'e, 'w) Evaluator" where
  "lampEval cfg = Evaluator_constructor cfg"

section \<open>Notions used to state the properties\<close>

text \<open>
  The options a call of \<^verbatim>\<open>lamp\<close> forwards are observed with capabilities that record
  every call they receive in the state of the world and return a fixed outcome.
\<close>

datatype ('sig, 'hdr, 'm, 'sch) capability_call =
  GenerateTextCall "('sig, 'hdr, 'm, 'sch) GenerateOptions"
| GenerateObjectCall "('sig, 'hdr, 'm, 'sch) GenerateOptions"

definition recording_generateText ::
  "'e thrown + string \<times> Usage \<Rightarrow> ('sig, 'hdr, 'm, 'sch) GenerateOptions
   \<Rightarrow> (string \<times> Usage, 'e, ('sig, 'hdr, 'm, 'sch) capability_call list) promise" where
  "recording_generateText outcome opts calls = (outcome, calls @ [GenerateTextCall opts])"

definition recording_generateObject ::
  "'e thrown + 'u \<times> Usage \<Rightarrow> ('sig, 'hdr, 'm, 'sch) GenerateOptions
   \<Rightarrow> ('u \<times> Usage, 'e, ('sig, 'hdr, 'm, 'sch) capability_call list) promise" where
  "recording_generateObject outcome opts calls = (outcome, calls @ [GenerateObjectCall opts])"

text \<open>
  \<open>prompt_parts\<close> is the conditional expression of \<^verbatim>\<open>lamp\<close> that splits what the prompt
  function returned.
\<close>

definition prompt_parts :: "LMPPrompt \<Rightarrow> string option \<times> string" where
  "prompt_parts prompts =
     (case prompts of PromptString s \<Rightarrow> (None, s) | SystemAndPrompt s p \<Rightarrow> (Some s, p))"

text \<open>
  \<open>forwarded_options\<close> is the object literal \<^verbatim>\<open>{ model, system, prompt, schema, ...settings }\<close>
  that \<^verbatim>\<open>getText\<close> and \<^verbatim>\<open>getObject\<close> build for a configuration and for what the prompt
  function returned, field by field (the schema of a configuration in text mode is absent).
\<close>

definition forwarded_options ::
  "('sig, 'hdr, 'm, 'sch) LMPConfig \<Rightarrow> LMPPrompt \<Rightarrow> ('sig, 'hdr, 'm, 'sch) GenerateOptions" where
  "forwarded_options cfg prompts =
     \<lparr>maxTokens = maxTokens cfg, temperature = temperature cfg,
      topP = topP cfg, topK = topK cfg,
      presencePenalty = presencePenalty cfg,
      frequencyPenalty = frequencyPenalty cfg,
      stopSequences = stopSequences cfg, seed = seed cfg,
      maxRetries = maxRetries cfg, abortSignal = abortSignal cfg,
      headers = headers cfg, debug = debug cfg,
      model = model cfg, schema = schema cfg,
      system = fst (prompt_parts prompts), prompt = snd (prompt_parts prompts)\<rparr>"

text \<open>
  The trace of \<^verbatim>\<open>logMessages\<close> prints without a fault when the stream is not a terminal or
  is at least as wide as a header and its two leading dashes (both headers have seven
  characters).
\<close>

definition trace_sink_ok :: "Stdout \<Rightarrow> bool" where
  "trace_sink_ok out = (case columns out of None \<Rightarrow> True | Some c \<Rightarrow> 9 \<le> c)"

text \<open>
  The trials of \<^verbatim>\<open>run\<close> in the order it executes them: each test case, repeated as often
  as the inner loop iterates. \<open>for_trials\<close> executes a list of trials in sequence and stops at
  the first fault; \<open>no_locals\<close> are the five empty arrays \<^verbatim>\<open>run\<close> starts from.
\<close>

fun for_trials ::
  "('p, 'u, 'e, 'w) Evaluator \<Rightarrow> ('w \<Rightarrow> real) \<Rightarrow> ('p \<Rightarrow> ('u LMPFunctionResult, 'e, 'w) promise)
   \<Rightarrow> 'p TestCase list \<Rightarrow> 'u run_locals \<Rightarrow> ('u run_locals, 'e, 'w) promise" where
  "for_trials this performance_now fn [] locals w = (Inr locals, w)"
| "for_trials this performance_now fn (testCase # rest) locals w =
     (case trial this performance_now fn testCase locals w of
        (Inl e, w') \<Rightarrow> (Inl e, w')
      | (Inr locals', w') \<Rightarrow> for_trials this performance_now fn rest locals' w')"

definition trials :: "('p, 'u, 'e, 'w) Evaluator \<Rightarrow> 'p TestCase list" where
  "trials this =
     concat (map (replicate (nat \<lceil>iterations (config this)\<rceil>))
                 (EvalConfig_fields.testCases (config this)))"

definition no_locals :: "'u run_locals" where
  "no_locals = \<lparr>run_locals.scores = [], run_locals.responses = [],
                 run_locals.promptTokens = [], responseTokens = [],
                 run_locals.executionTimes = []\<rparr>"

text \<open>
  \<open>trial_between\<close>: a response, a score and an elapsed time are those of one trial of a test
  case that starts in one state of the world and ends in another. \<open>records_chain\<close>: the five
  arrays hold, index by index, the trials of a list of test cases, each trial starting in
  the state the one before it ended in.
\<close>

definition trial_between ::
  "('p, 'u, 'e, 'w) Evaluator \<Rightarrow> ('w \<Rightarrow> real) \<Rightarrow> ('p \<Rightarrow> ('u LMPFunctionResult, 'e, 'w) promise)
   \<Rightarrow> 'p TestCase \<Rightarrow> 'u LMPFunctionResult \<Rightarrow> real \<Rightarrow> real \<Rightarrow> 'w \<Rightarrow> 'w \<Rightarrow> bool" where
  "trial_between this performance_now fn testCase result score elapsed before after =
     (\<exists>called. fn (input testCase) before = (Inr result, called)
        \<and> evaluator (config this) testCase result called = (Inr score, after)
        \<and> elapsed = performance_now called - performance_now before)"

definition records_chain ::
  "('p, 'u, 'e, 'w) Evaluator \<Rightarrow> ('w \<Rightarrow> real) \<Rightarrow> ('p \<Rightarrow> ('u LMPFunctionResult, 'e, 'w) promise)
   \<Rightarrow> 'p TestCase list \<Rightarrow> 'u run_locals \<Rightarrow> 'w list \<Rightarrow> bool" where
  "records_chain this performance_now fn ts locals ws =
     (length (run_locals.responses locals) = length ts
      \<and> length (run_locals.scores locals) = length ts
      \<and> length (run_locals.promptTokens locals) = length ts
      \<and> length (responseTokens locals) = length ts
      \<and> length (run_locals.executionTimes locals) = length ts
      \<and> length ws = Suc (length ts)
      \<and> (\<forall>k < length ts.
            run_locals.promptTokens locals ! k
              = Usage.promptTokens (usage (run_locals.responses locals ! k))
          \<and> responseTokens locals ! k
              = Usage.completionTokens (usage (run_locals.responses locals ! k))
          \<and> trial_between this performance_now fn (ts ! k) (run_locals.responses locals ! k)
                (run_locals.scores locals ! k) (run_locals.executionTimes locals ! k)
                (ws ! k) (ws ! Suc k)))"

section \<open>Example inputs\<close>

text \<open>
  The configurations of the repository's sample script, a terminal of 80 columns and one
  of 8, capabilities that resolve whatever the request and capabilities whose outcome
  depends on the request they are handed, and an invoker and evaluator functions that
  resolve or fail by the state of the world. The invoker takes five ticks of the clock.
\<close>

definition example_usage :: Usage where
  "example_usage = \<lparr>Usage.promptTokens = 12, Usage.completionTokens = 7, totalTokens = 19\<rparr>"

definition example_config :: "(unit, unit, string, string) LMPConfig" where
  "example_config =
     \<lparr>maxTokens = Some 256, temperature = Some 1, topP = None, topK = None,
      presencePenalty = None, frequencyPenalty = None, stopSequences = None, seed = None,
      maxRetries = None, abortSignal = None, headers = None, debug = Some True,
      model = ''anthropic:haiku'', schema = None\<rparr>"

definition example_object_config :: "(unit, unit, string, string) LMPConfig" where
  "example_object_config =
     \<lparr>maxTokens = Some 256, temperature = Some 1, topP = None, topK = None,
      presencePenalty = None, frequencyPenalty = None, stopSequences = None, seed = None,
      maxRetries = None, abortSignal = None, headers = None, debug = None,
      model = ''anthropic:sonnet'', schema = Some ''fruits: string[]''\<rparr>"

definition example_forwarded :: "(unit, unit, string, string) GenerateOptions" where
  "example_forwarded =
     \<lparr>maxTokens = Some 256, temperature = Some 1, topP = None, topK = None,
      presencePenalty = None, frequencyPenalty = None, stopSequences = None, seed = None,
      maxRetries = None, abortSignal = None, headers = None, debug = Some True,
      model = ''anthropic:haiku'', schema = None,
      system = None, prompt = ''Generate kinds of red fruit.''\<rparr>"

definition example_promptFn :: "string \<Rightarrow> LMPPrompt" where
  "example_promptFn color = PromptString (''Generate kinds of '' @ color @ '' fruit.'')"

definition example_stringify :: "string list \<Rightarrow> string" where
  "example_stringify fruits = ''['' @ concat fruits @ '']''"

definition example_terminal :: Stdout where
  "example_terminal = \<lparr>columns = Some 80, written = []\<rparr>"

definition narrow_terminal :: Stdout where
  "narrow_terminal = \<lparr>columns = Some 8, written = []\<rparr>"

definition example_generateText ::
  "(unit, unit, string, string) GenerateOptions \<Rightarrow> (string \<times> Usage, string, nat) promise" where
  "example_generateText opts w = (Inr (''apple, cherry, plum'', example_usage), Suc w)"

definition example_generateObject ::
  "(unit, unit, string, string) GenerateOptions \<Rightarrow> (string list \<times> Usage, string, nat) promise" where
  "example_generateObject opts w = (Inr ([''apple'', ''cherry''], example_usage), Suc w)"

definition silent_generateText ::
  "(unit, unit, string, string) GenerateOptions \<Rightarrow> (string \<times> Usage, string, nat) promise" where
  "silent_generateText opts w =
     (Inr (if system opts = None then '''' else prompt opts, example_usage), Suc w)"

definition failing_generateText ::
  "(unit, unit, string, string) GenerateOptions \<Rightarrow> (string \<times> Usage, string, nat) promise" where
  "failing_generateText opts w =
     (if maxTokens opts = Some 256 then (Inl (Thrown ''rate limit''), Suc w)
      else (Inr (''apple, cherry, plum'', example_usage), Suc w))"

definition failing_generateObject ::
  "(unit, unit, string, string) GenerateOptions \<Rightarrow> (string list \<times> Usage, string, nat) promise" where
  "failing_generateObject opts w =
     (if schema opts = Some ''fruits: string[]'' then (Inl (Thrown ''schema mismatch''), Suc w)
      else (Inr ([''apple'', ''cherry''], example_usage), Suc w))"

definition example_testCases :: "(nat \<times> string) TestCase list" where
  "example_testCases = [\<lparr>input = (3, ''red''), output = ''''\<rparr>]"

definition example_invoker ::
  "nat \<times> string \<Rightarrow> (string list LMPFunctionResult, string, nat) promise" where
  "example_invoker args w =
     (Inr \<lparr>text = Some ''apple, cherry, plum'', object = None, usage = example_usage\<rparr>, w + 5)"

definition failing_invoker ::
  "nat \<times> string \<Rightarrow> (string list LMPFunctionResult, string, nat) promise" where
  "failing_invoker args w =
     (if w < 5
      then (Inr \<lparr>text = Some ''apple, cherry, plum'', object = None, usage = example_usage\<rparr>,
            w + 5)
      else (Inl (Thrown ''aborted''), Suc w))"

definition example_now :: "nat \<Rightarrow> real" where
  "example_now w = real w"

definition example_evaluator ::
  "(nat \<times> string, string list, string, nat) evaluator_fn" where
  "example_evaluator testCase response w = (Inr 1, w)"

definition failing_evaluator ::
  "(nat \<times> string, string list, string, nat) evaluator_fn" where
  "failing_evaluator testCase response w =
     (if w < 10 then (Inr 1, w) else (Inl (Thrown ''score is not a number''), Suc w))"

definition example_EvalConfig ::
  "(nat \<times> string, string list, string, nat) EvalConfig" where
  "example_EvalConfig =
     \<lparr>iterations = Some 2, EvalConfig_fields.testCases = Some example_testCases,
      evaluator = Some example_evaluator, benchmark = Some True\<rparr>"

section \<open>The debug trace\<close>

lemma writeHeader_ok:
  assumes "trace_sink_ok out" and "length header = 7"
  shows "\<exists>chunk. (writeHeader header out :: ('e thrown + unit) \<times> Stdout)
           = (Inr (), stdout_write chunk out)"
  using assms
  by (cases "columns out")
     (auto simp: writeHeader_def repeat_def trace_sink_ok_def Let_def)

lemma trace_sink_ok_stdout_write [simp]:
  "trace_sink_ok (stdout_write chunk out) = trace_sink_ok out"
  by (simp add: trace_sink_ok_def stdout_write_def)

lemma trace_sink_ok_writeln [simp]: "trace_sink_ok (writeln v out) = trace_sink_ok out"
  by (simp add: writeln_def)

lemma logMessages_ok:
  assumes "trace_sink_ok out"
  shows "\<exists>out'. (logMessages sys user outp out :: ('e thrown + unit) \<times> Stdout) = (Inr (), out')
           \<and> last (written out') = ToString outp @ ''\<newline>''"
proof -
  obtain c1 where h1: "(writeHeader ''Prompt:'' out :: ('e thrown + unit) \<times> Stdout)
                         = (Inr (), stdout_write c1 out)"
    using writeHeader_ok [OF assms, of "''Prompt:''"] by auto
  define out2 where "out2 =
     (if truthy_string sys
      then writeln (Some '''')
             (writeln (Some (CHR 0x1B # ''[33msystem:'' @ CHR 0x1B # ''[0m '' @ ToString sys))
                (stdout_write c1 out))
      else stdout_write c1 out)"
  define out3 where "out3 = writeln (Some (CHR 0x1B # ''[33muser:'' @ CHR 0x1B # ''[0m '' @ user)) out2"
  have "trace_sink_ok out3" using assms by (simp add: out3_def out2_def)
  then obtain c2 where h2: "(writeHeader ''Output:'' out3 :: ('e thrown + unit) \<times> Stdout)
                         = (Inr (), stdout_write c2 out3)"
    using writeHeader_ok [of out3 "''Output:''"] by auto
  have "(logMessages sys user outp out :: ('e thrown + unit) \<times> Stdout)
          = (Inr (), writeln outp (stdout_write c2 out3))"
    using h1 h2 by (simp add: logMessages_def Let_def out3_def out2_def)
  moreover have "last (written (writeln outp (stdout_write c2 out3))) = ToString outp @ ''\<newline>''"
    by (simp add: writeln_def stdout_write_def)
  ultimately show ?thesis by blast
qed

text \<open>
  On a terminal narrower than nine columns the first header already asks \<^verbatim>\<open>repeat\<close> for a
  negative count, and the trace throws before it has written anything.
\<close>

lemma logMessages_narrow_terminal:
  "columns out = Some c \<Longrightarrow> c < 9 \<Longrightarrow>
     (logMessages sys user outp out :: ('e thrown + unit) \<times> Stdout) = (Inl RangeError, out)"
  by (simp add: logMessages_def writeHeader_def repeat_def)

section \<open>The bound invoker\<close>

text \<open>
  A call in text mode and a call in object mode, unfolded: the options forwarded are the
  configuration itself, extended by the system message and the prompt.
\<close>

lemma lamp_text_mode:
  assumes "schema cfg = None"
  shows "lamp generateText generateObject JSON_stringify cfg promptFn args (w, out) =
     (case generateText
             (LMPConfig.extend cfg
                (GenerateOptions.fields (fst (prompt_parts (promptFn args)))
                                        (snd (prompt_parts (promptFn args))))) w of
        (Inl e, w') \<Rightarrow> (Inl e, (w', out))
      | (Inr (t, u), w') \<Rightarrow>
          if debug cfg = Some True
          then (case logMessages (fst (prompt_parts (promptFn args)))
                       (snd (prompt_parts (promptFn args)))
                       (if t = [] then None else Some t) out of
                  (Inl e, out') \<Rightarrow> (Inl e, (w', out'))
                | (Inr ok, out') \<Rightarrow>
                    (Inr \<lparr>text = Some t, object = None, usage = u\<rparr>, (w', out')))
          else (Inr \<lparr>text = Some t, object = None, usage = u\<rparr>, (w', out)))"
  using assms
  by (simp add: lamp_def getText_def prompt_parts_def truthy_string_def Let_def
      ModelSettings.defs LMPConfig.defs GenerateOptions.defs
      split: LMPPrompt.splits prod.splits sum.splits)

lemma lamp_object_mode:
  assumes "schema cfg = Some sch"
  shows "lamp generateText generateObject JSON_stringify cfg promptFn args (w, out) =
     (case generateObject
             (LMPConfig.extend cfg
                (GenerateOptions.fields (fst (prompt_parts (promptFn args)))
                                        (snd (prompt_parts (promptFn args))))) w of
        (Inl e, w') \<Rightarrow> (Inl e, (w', out))
      | (Inr (obj, u), w') \<Rightarrow>
          if debug cfg = Some True
          then (case logMessages (fst (prompt_parts (promptFn args)))
                       (snd (prompt_parts (promptFn args)))
                       (Some (JSON_stringify obj)) out of
                  (Inl e, out') \<Rightarrow> (Inl e, (w', out'))
                | (Inr ok, out') \<Rightarrow>
                    (Inr \<lparr>text = None, object = Some obj, usage = u\<rparr>, (w', out')))
          else (Inr \<lparr>text = None, object = Some obj, usage = u\<rparr>, (w', out)))"
  using assms
  by (simp add: lamp_def getObject_def prompt_parts_def truthy_string_def Let_def
      ModelSettings.defs LMPConfig.defs GenerateOptions.defs
      split: LMPPrompt.splits prod.splits sum.splits)

lemma extend_debug_update:
  "LMPConfig.extend (cfg\<lparr>debug := d\<rparr>) ext = (LMPConfig.extend cfg ext)\<lparr>debug := d\<rparr>"
  by (simp add: LMPConfig.defs)

lemma lamp_recorded_call:
  "fst (snd (lamp (recording_generateText textOutcome) (recording_generateObject objectOutcome)
               JSON_stringify cfg promptFn args (calls, out)))
   = calls @ [(if schema cfg = None then GenerateTextCall else GenerateObjectCall)
                (LMPConfig.extend cfg
                   (GenerateOptions.fields (fst (prompt_parts (promptFn args)))
                                           (snd (prompt_parts (promptFn args)))))]"
proof (cases "schema cfg")
  case None
  then show ?thesis
    by (simp add: lamp_text_mode recording_generateText_def split: sum.splits prod.splits)
next
  case (Some sch)
  then show ?thesis
    by (simp add: lamp_object_mode recording_generateObject_def split: sum.splits prod.splits)
qed

text \<open>
  The options a bound invoker hands to the capability are \<open>forwarded_options\<close> of its
  configuration and of what the prompt function returned.
\<close>

lemma forwarded_options_extend:
  "forwarded_options cfg prompts =
     LMPConfig.extend cfg
       (GenerateOptions.fields (fst (prompt_parts prompts)) (snd (prompt_parts prompts)))"
  by (simp add: forwarded_options_def LMPConfig.defs GenerateOptions.defs)

lemma lamp_forwards_options:
  "fst (snd (lamp (recording_generateText textOutcome) (recording_generateObject objectOutcome)
               JSON_stringify cfg promptFn args (calls, out)))
   = calls @ [(if schema cfg = None then GenerateTextCall else GenerateObjectCall)
                (forwarded_options cfg (promptFn args))]"
  by (simp only: lamp_recorded_call forwarded_options_extend)

text \<open>
  C1, as the code has it. For every call of a bound invoker, the options forwarded to the
  external generation capability carry every generation setting of the configuration
  unchanged, the debug flag included; the model is forwarded with them, and the schema is
  forwarded in object mode (a call in text mode goes to \<^verbatim>\<open>generateText\<close> and its
  configuration has none).
\<close>

theorem forwarded_settings_keep_debug:
  "\<exists>opts. fst (snd (lamp (recording_generateText textOutcome)
                         (recording_generateObject objectOutcome)
                         JSON_stringify cfg promptFn args (calls, out)))
            = calls @ [(if schema cfg = None then GenerateTextCall else GenerateObjectCall) opts]
         \<and> ModelSettings.truncate opts = ModelSettings.truncate cfg
         \<and> debug opts = debug cfg
         \<and> model opts = model cfg
         \<and> schema opts = schema cfg"
proof -
  let ?opts = "LMPConfig.extend cfg
                 (GenerateOptions.fields (fst (prompt_parts (promptFn args)))
                                         (snd (prompt_parts (promptFn args))))"
  have "ModelSettings.truncate ?opts = ModelSettings.truncate cfg"
    by (simp add: ModelSettings.defs LMPConfig.defs)
  moreover have "debug ?opts = debug cfg" "model ?opts = model cfg" "schema ?opts = schema cfg"
    by (simp_all add: LMPConfig.defs)
  ultimately show ?thesis
    using lamp_recorded_call [of textOutcome objectOutcome JSON_stringify cfg promptFn args calls out]
    by blast
qed

text \<open>
  C1, as the claim states it, fails: with the debug flag set in the configuration, the
  options \<^verbatim>\<open>generateText\<close> receives carry \<^verbatim>\<open>debug: true\<close>.
\<close>

theorem debug_flag_stripped_counterexample:
  "fst (snd (lamp (recording_generateText (Inr (''apple'', example_usage)))
                  (recording_generateObject (Inr ([''apple''], example_usage)))
                  example_stringify example_config example_promptFn ''red''
                  ([], example_terminal)))
     = [GenerateTextCall example_forwarded]
   \<and> debug example_forwarded = Some True"
  by (simp add: lamp_recorded_call example_config_def example_forwarded_def
      example_promptFn_def prompt_parts_def LMPConfig.defs GenerateOptions.defs)

text \<open>
  C6. For every call of a bound invoker: if the prompt function returns a pair of a system
  message and a prompt, the external generation capability is called with exactly that
  system message and prompt; if it returns a bare string, the capability is called with
  that string as the prompt and no system message.
\<close>

theorem prompt_forwarded:
  "\<exists>opts. fst (snd (lamp (recording_generateText textOutcome)
                         (recording_generateObject objectOutcome)
                         JSON_stringify cfg promptFn args (calls, out)))
            = calls @ [(if schema cfg = None then GenerateTextCall else GenerateObjectCall) opts]
         \<and> (case promptFn args of
               SystemAndPrompt s p \<Rightarrow> system opts = Some s \<and> prompt opts = p
             | PromptString p \<Rightarrow> system opts = None \<and> prompt opts = p)"
proof -
  let ?opts = "LMPConfig.extend cfg
                 (GenerateOptions.fields (fst (prompt_parts (promptFn args)))
                                         (snd (prompt_parts (promptFn args))))"
  have "case promptFn args of
          SystemAndPrompt s p \<Rightarrow> system ?opts = Some s \<and> prompt ?opts = p
        | PromptString p \<Rightarrow> system ?opts = None \<and> prompt ?opts = p"
    by (simp add: LMPConfig.defs GenerateOptions.defs prompt_parts_def split: LMPPrompt.splits)
  then show ?thesis
    using lamp_recorded_call [of textOutcome objectOutcome JSON_stringify cfg promptFn args calls out]
    by blast
qed

lemma lamp_resolved_shape:
  assumes "lamp generateText generateObject JSON_stringify cfg promptFn args s = (Inr r, s')"
  shows "(schema cfg \<noteq> None \<longrightarrow> text r = None \<and> object r \<noteq> None)
       \<and> (schema cfg = None \<longrightarrow> text r \<noteq> None \<and> object r = None)"
proof (cases s)
  case (Pair w out)
  show ?thesis
  proof (cases "schema cfg")
    case None
    with assms Pair show ?thesis
      by (auto simp: lamp_text_mode split: sum.splits prod.splits if_splits)
  next
    case (Some sch)
    with assms Pair show ?thesis
      by (auto simp: lamp_object_mode split: sum.splits prod.splits if_splits)
  qed
qed

lemma lamp_resolves:
  fixes generateText ::
    "('sig, 'hdr, 'm, 'sch) GenerateOptions \<Rightarrow> (string \<times> Usage, 'e, 'w) promise"
  assumes gt: "\<forall>opts w. \<exists>x w'. generateText opts w = (Inr x, w')"
      and go: "\<forall>opts w. \<exists>x w'. generateObject opts w = (Inr x, w')"
      and tr: "debug cfg = Some True \<longrightarrow> trace_sink_ok (snd s)"
  shows "\<exists>r s'. lamp generateText generateObject JSON_stringify cfg promptFn args s = (Inr r, s')"
proof (cases s)
  case (Pair w out)
  let ?sys = "fst (prompt_parts (promptFn args))"
  let ?p = "snd (prompt_parts (promptFn args))"
  let ?opts = "LMPConfig.extend cfg (GenerateOptions.fields ?sys ?p)"
  show ?thesis
  proof (cases "schema cfg")
    case None
    obtain t u w' where g: "generateText ?opts w = (Inr (t, u), w')"
      using gt by (metis surj_pair)
    show ?thesis
    proof (cases "debug cfg = Some True")
      case True
      then have "trace_sink_ok out" using tr Pair by simp
      from logMessages_ok [OF this, of ?sys ?p "if t = [] then None else Some t", where ?'e = 'e]
      obtain out' where "(logMessages ?sys ?p (if t = [] then None else Some t) out
                            :: ('e thrown + unit) \<times> Stdout) = (Inr (), out')"
        by blast
      with None Pair g True show ?thesis by (simp add: lamp_text_mode)
    next
      case False
      with None Pair g show ?thesis by (simp add: lamp_text_mode)
    qed
  next
    case (Some sch)
    obtain obj u w' where g: "generateObject ?opts w = (Inr (obj, u), w')"
      using go by (metis surj_pair)
    show ?thesis
    proof (cases "debug cfg = Some True")
      case True
      then have "trace_sink_ok out" using tr Pair by simp
      from logMessages_ok [OF this, of ?sys ?p "Some (JSON_stringify obj)", where ?'e = 'e]
      obtain out' where "(logMessages ?sys ?p (Some (JSON_stringify obj)) out
                            :: ('e thrown + unit) \<times> Stdout) = (Inr (), out')"
        by blast
      with Some Pair g True show ?thesis by (simp add: lamp_object_mode)
    next
      case False
      with Some Pair g show ?thesis by (simp add: lamp_object_mode)
    qed
  qed
qed

text \<open>
  C2. For every bound invoker: if its configuration carries a schema, every call that
  resolves yields a result with an object and no text; if it carries no schema, every call
  that resolves yields a result with a text and no object. The shape depends on the
  configuration only, so it is the same for all calls of one bound invoker. A call does
  resolve whenever the capabilities resolve and the debug trace, if the flag is set, can
  print.
\<close>

theorem result_shape_by_schema:
  "(\<forall>r s'. lamp generateText generateObject JSON_stringify cfg promptFn args s = (Inr r, s') \<longrightarrow>
       (schema cfg \<noteq> None \<longrightarrow> text r = None \<and> object r \<noteq> None)
     \<and> (schema cfg = None \<longrightarrow> text r \<noteq> None \<and> object r = None))
   \<and> ((\<forall>opts w. \<exists>x w'. generateText opts w = (Inr x, w'))
      \<and> (\<forall>opts w. \<exists>x w'. generateObject opts w = (Inr x, w'))
      \<and> (debug cfg = Some True \<longrightarrow> trace_sink_ok (snd s))
      \<longrightarrow> (\<exists>r s'. lamp generateText generateObject JSON_stringify cfg promptFn args s
                     = (Inr r, s')))"
  using lamp_resolved_shape [of generateText generateObject JSON_stringify cfg promptFn args s]
    lamp_resolves [of generateText generateObject cfg s JSON_stringify promptFn args]
  by blast

theorem result_shape_by_schema_witness:
  "schema example_config = None
   \<and> (\<exists>r s'. lamp example_generateText example_generateObject example_stringify
               example_config example_promptFn ''red'' (0, example_terminal) = (Inr r, s')
            \<and> text r \<noteq> None \<and> object r = None)
   \<and> schema example_object_config \<noteq> None
   \<and> (\<exists>r s'. lamp example_generateText example_generateObject example_stringify
               example_object_config example_promptFn ''red'' (0, example_terminal) = (Inr r, s')
            \<and> text r = None \<and> object r \<noteq> None)"
proof -
  have gt: "\<forall>opts w. \<exists>x w'. example_generateText opts w = (Inr x, w')"
    by (simp add: example_generateText_def)
  have go: "\<forall>opts w. \<exists>x w'. example_generateObject opts w = (Inr x, w')"
    by (simp add: example_generateObject_def)
  have ok: "trace_sink_ok (snd (0 :: nat, example_terminal))"
    by (simp add: trace_sink_ok_def example_terminal_def)
  have s1: "schema example_config = None" by (simp add: example_config_def)
  have s2: "schema example_object_config \<noteq> None" by (simp add: example_object_config_def)
  from result_shape_by_schema [of example_generateText example_generateObject
      example_stringify example_config example_promptFn "''red''" "(0, example_terminal)"]
    gt go ok s1
  have a: "\<exists>r s'. lamp example_generateText example_generateObject example_stringify
               example_config example_promptFn ''red'' (0, example_terminal) = (Inr r, s')
            \<and> text r \<noteq> None \<and> object r = None"
    by blast
  from result_shape_by_schema [of example_generateText example_generateObject
      example_stringify example_object_config example_promptFn "''red''" "(0, example_terminal)"]
    gt go ok s2
  have b: "\<exists>r s'. lamp example_generateText example_generateObject example_stringify
               example_object_config example_promptFn ''red'' (0, example_terminal) = (Inr r, s')
            \<and> text r = None \<and> object r \<noteq> None"
    by blast
  from a b s1 s2 show ?thesis by blast
qed

lemma lamp_debug_unset:
  fixes generateText ::
    "('sig, 'hdr, 'm, 'sch) GenerateOptions \<Rightarrow> (string \<times> Usage, 'e, 'w) promise"
  assumes gt: "\<forall>opts d. generateText (opts\<lparr>debug := d\<rparr>) = generateText opts"
      and go: "\<forall>opts d. generateObject (opts\<lparr>debug := d\<rparr>) = generateObject opts"
      and res: "lamp generateText generateObject JSON_stringify (cfg\<lparr>debug := d\<rparr>) promptFn args
                  (w, out) = (Inr v, (w', out'))"
  shows "lamp generateText generateObject JSON_stringify (cfg\<lparr>debug := d'\<rparr>) promptFn args (w, out)
           = (if d' = Some True
              then (case logMessages (fst (prompt_parts (promptFn args)))
                           (snd (prompt_parts (promptFn args)))
                           (if truthy_string (text v) then text v
                            else map_option JSON_stringify (object v)) out of
                      (Inl e, out2) \<Rightarrow> (Inl e, (w', out2))
                    | (Inr ok, out2) \<Rightarrow> (Inr v, (w', out2)))
              else (Inr v, (w', out)))"
proof -
  let ?sys = "fst (prompt_parts (promptFn args))"
  let ?p = "snd (prompt_parts (promptFn args))"
  let ?opts = "LMPConfig.extend cfg (GenerateOptions.fields ?sys ?p)"
  have gt1: "generateText (LMPConfig.extend (cfg\<lparr>debug := x\<rparr>) (GenerateOptions.fields ?sys ?p))
               = generateText ?opts" for x
    unfolding extend_debug_update by (rule gt [rule_format])
  have go1: "generateObject (LMPConfig.extend (cfg\<lparr>debug := x\<rparr>) (GenerateOptions.fields ?sys ?p))
               = generateObject ?opts" for x
    unfolding extend_debug_update by (rule go [rule_format])
  show ?thesis
  proof (cases "schema cfg")
    case None
    then have n: "schema (cfg\<lparr>debug := x\<rparr>) = None" for x by simp
    obtain outcome w1 where g: "generateText ?opts w = (outcome, w1)" by (cases "generateText ?opts w")
    from res have "\<exists>t u. outcome = Inr (t, u) \<and> w1 = w' \<and> v = \<lparr>text = Some t, object = None, usage = u\<rparr>"
      by (simp add: lamp_text_mode [OF n] gt1 g split: sum.splits prod.splits if_splits)
    then obtain t u where o: "outcome = Inr (t, u)" "w1 = w'"
      "v = \<lparr>text = Some t, object = None, usage = u\<rparr>" by blast
    show ?thesis
      unfolding o(3) by (simp add: lamp_text_mode [OF n] gt1 g o(1,2) truthy_string_def)
  next
    case (Some sch)
    then have n: "schema (cfg\<lparr>debug := x\<rparr>) = Some sch" for x by simp
    obtain outcome w1 where g: "generateObject ?opts w = (outcome, w1)"
      by (cases "generateObject ?opts w")
    from res have "\<exists>obj u. outcome = Inr (obj, u) \<and> w1 = w'
                     \<and> v = \<lparr>text = None, object = Some obj, usage = u\<rparr>"
      by (simp add: lamp_object_mode [OF n] go1 g split: sum.splits prod.splits if_splits)
    then obtain obj u where o: "outcome = Inr (obj, u)" "w1 = w'"
      "v = \<lparr>text = None, object = Some obj, usage = u\<rparr>" by blast
    show ?thesis
      unfolding o(3) by (simp add: lamp_object_mode [OF n] go1 g o(1,2) truthy_string_def)
  qed
qed

text \<open>
  What the trace cannot change. Let the external capabilities behave the same whatever
  debug flag is among the settings they are handed, and let a call of a bound invoker
  resolve to \<open>v\<close> with one value of the debug flag in its configuration. Then the same call
  from the same state with any other value of the flag resolves to \<open>v\<close>, with the external
  world left in the same state and nothing written, when that value is not \<^verbatim>\<open>true\<close>; it
  never resolves to another value than \<open>v\<close> or leaves the external world in another state;
  and it does resolve to \<open>v\<close> whenever the trace can print.
\<close>

lemma debug_trace_when_resolved:
  fixes generateText ::
    "('sig, 'hdr, 'm, 'sch) GenerateOptions \<Rightarrow> (string \<times> Usage, 'e, 'w) promise"
  assumes "\<forall>opts d. generateText (opts\<lparr>debug := d\<rparr>) = generateText opts"
      and "\<forall>opts d. generateObject (opts\<lparr>debug := d\<rparr>) = generateObject opts"
      and "lamp generateText generateObject JSON_stringify (cfg\<lparr>debug := d\<rparr>) promptFn args
             (w, out) = (Inr v, (w', out'))"
  shows "(d' \<noteq> Some True \<longrightarrow>
            lamp generateText generateObject JSON_stringify (cfg\<lparr>debug := d'\<rparr>) promptFn args
              (w, out) = (Inr v, (w', out)))
       \<and> (\<forall>v2 s2. lamp generateText generateObject JSON_stringify (cfg\<lparr>debug := d'\<rparr>) promptFn
                     args (w, out) = (Inr v2, s2) \<longrightarrow> v2 = v \<and> fst s2 = w')
       \<and> (trace_sink_ok out \<longrightarrow>
            (\<exists>out2. lamp generateText generateObject JSON_stringify (cfg\<lparr>debug := d'\<rparr>) promptFn
                      args (w, out) = (Inr v, (w', out2))))"
proof -
  note eq = lamp_debug_unset [OF assms, of d']
  have a: "d' \<noteq> Some True \<longrightarrow>
            lamp generateText generateObject JSON_stringify (cfg\<lparr>debug := d'\<rparr>) promptFn args
              (w, out) = (Inr v, (w', out))"
    using eq by simp
  have b: "\<forall>v2 s2. lamp generateText generateObject JSON_stringify (cfg\<lparr>debug := d'\<rparr>) promptFn
                     args (w, out) = (Inr v2, s2) \<longrightarrow> v2 = v \<and> fst s2 = w'"
    using eq by (auto split: if_splits sum.splits prod.splits)
  have c: "trace_sink_ok out \<longrightarrow>
            (\<exists>out2. lamp generateText generateObject JSON_stringify (cfg\<lparr>debug := d'\<rparr>) promptFn
                      args (w, out) = (Inr v, (w', out2)))"
  proof
    assume ok: "trace_sink_ok out"
    from logMessages_ok [OF ok, of "fst (prompt_parts (promptFn args))"
        "snd (prompt_parts (promptFn args))"
        "if truthy_string (text v) then text v else map_option JSON_stringify (object v)",
        where ?'e = 'e]
    obtain out2 where "(logMessages (fst (prompt_parts (promptFn args)))
                           (snd (prompt_parts (promptFn args)))
                           (if truthy_string (text v) then text v
                            else map_option JSON_stringify (object v)) out
                          :: ('e thrown + unit) \<times> Stdout) = (Inr (), out2)"
      by blast
    then show "\<exists>out2. lamp generateText generateObject JSON_stringify (cfg\<lparr>debug := d'\<rparr>) promptFn
                      args (w, out) = (Inr v, (w', out2))"
      using eq by simp
  qed
  from a b c show ?thesis by blast
qed

text \<open>
  C8. The claim is that the value a call resolves to is the same whether the debug flag is
  set or not. The code breaks it on a terminal narrower than nine columns: with the flag
  unset the call resolves to the generated text and its usage; with the flag set, and
  nothing else changed, \<^verbatim>\<open>writeHeader("Prompt:")\<close> asks \<^verbatim>\<open>repeat\<close> for \<open>8 - 7 - 2\<close> dashes, the
  \<^verbatim>\<open>RangeError\<close> is not caught by \<^verbatim>\<open>lamp\<close>, and the call rejects after the capability has
  resolved.
\<close>

theorem debug_trace_rejects_on_narrow_terminal:
  "lamp example_generateText example_generateObject example_stringify
     (example_config\<lparr>debug := None\<rparr>) example_promptFn ''red'' (0, narrow_terminal)
     = (Inr \<lparr>text = Some ''apple, cherry, plum'', object = None, usage = example_usage\<rparr>,
        (Suc 0, narrow_terminal))
   \<and> lamp example_generateText example_generateObject example_stringify
       (example_config\<lparr>debug := Some True\<rparr>) example_promptFn ''red'' (0, narrow_terminal)
     = (Inl RangeError, (Suc 0, narrow_terminal))"
proof -
  have off: "schema (example_config\<lparr>debug := None\<rparr>) = None"
    and on: "schema (example_config\<lparr>debug := Some True\<rparr>) = None"
    by (simp_all add: example_config_def)
  have narrow: "columns narrow_terminal = Some 8" by (simp add: narrow_terminal_def)
  have less: "(8 :: int) < 9" by simp
  note thrown = logMessages_narrow_terminal [OF narrow less, where ?'e = string]
  have a: "lamp example_generateText example_generateObject example_stringify
     (example_config\<lparr>debug := None\<rparr>) example_promptFn ''red'' (0, narrow_terminal)
     = (Inr \<lparr>text = Some ''apple, cherry, plum'', object = None, usage = example_usage\<rparr>,
        (Suc 0, narrow_terminal))"
    by (simp add: lamp_text_mode [OF off] example_generateText_def)
  have b: "lamp example_generateText example_generateObject example_stringify
       (example_config\<lparr>debug := Some True\<rparr>) example_promptFn ''red'' (0, narrow_terminal)
     = (Inl RangeError, (Suc 0, narrow_terminal))"
    by (simp add: lamp_text_mode [OF on] example_generateText_def thrown)
  from a b show ?thesis by simp
qed

text \<open>
  C10. In debug mode the last line of the trace is chosen by the truthiness of the text of
  the result: a call in text mode for which the capability, on the options forwarded to
  it, generates a text \<open>t\<close> that is not empty prints \<open>t\<close>, and one for which it generates the
  empty string prints \<^verbatim>\<open>undefined\<close>, which is what \<^verbatim>\<open>JSON.stringify\<close> makes of the absent
  object.
\<close>

theorem debug_trace_output_by_truthiness:
  fixes generateText ::
    "('sig, 'hdr, 'm, 'sch) GenerateOptions \<Rightarrow> (string \<times> Usage, 'e, 'w) promise"
  assumes "schema cfg = None" and "debug cfg = Some True"
      and "generateText (forwarded_options cfg (promptFn args)) w = (Inr (t, u), w')"
      and "trace_sink_ok out"
  shows "\<exists>out'. lamp generateText generateObject JSON_stringify cfg promptFn args (w, out)
                  = (Inr \<lparr>text = Some t, object = None, usage = u\<rparr>, (w', out'))
               \<and> last (written out') = (if t = [] then ''undefined'' else t) @ ''\<newline>''"
proof -
  from logMessages_ok [OF assms(4), of "fst (prompt_parts (promptFn args))"
        "snd (prompt_parts (promptFn args))" "if t = [] then None else Some t", where ?'e = 'e]
  obtain out' where "(logMessages (fst (prompt_parts (promptFn args)))
                        (snd (prompt_parts (promptFn args)))
                        (if t = [] then None else Some t) out
                       :: ('e thrown + unit) \<times> Stdout) = (Inr (), out')"
    and "last (written out') = ToString (if t = [] then None else Some t) @ ''\<newline>''"
    by blast
  moreover have "generateText
      (LMPConfig.extend cfg
         (GenerateOptions.fields (fst (prompt_parts (promptFn args)))
                                 (snd (prompt_parts (promptFn args))))) w = (Inr (t, u), w')"
    using assms(3) by (simp only: forwarded_options_extend)
  ultimately show ?thesis
    using assms(1,2) by (simp add: lamp_text_mode ToString_def)
qed

theorem debug_trace_output_by_truthiness_witness:
  "schema example_config = None \<and> debug example_config = Some True
   \<and> silent_generateText (forwarded_options example_config (example_promptFn ''red'')) 0
       = (Inr ('''', example_usage), Suc 0)
   \<and> trace_sink_ok example_terminal
   \<and> (\<exists>out'. lamp silent_generateText example_generateObject example_stringify
                 example_config example_promptFn ''red'' (0, example_terminal)
                = (Inr \<lparr>text = Some '''', object = None, usage = example_usage\<rparr>, (Suc 0, out'))
              \<and> last (written out') = ''undefined\<newline>'')"
proof -
  have s: "schema example_config = None" and d: "debug example_config = Some True"
    by (simp_all add: example_config_def)
  have g: "silent_generateText (forwarded_options example_config (example_promptFn ''red'')) 0
             = (Inr ('''', example_usage), Suc 0)"
    by (simp add: silent_generateText_def forwarded_options_def prompt_parts_def
        example_promptFn_def)
  have ok: "trace_sink_ok example_terminal"
    by (simp add: trace_sink_ok_def example_terminal_def)
  from debug_trace_output_by_truthiness [where cfg = example_config
      and generateText = silent_generateText and w = 0 and t = "''''" and u = example_usage
      and w' = "Suc 0" and out = example_terminal and generateObject = example_generateObject
      and JSON_stringify = example_stringify and promptFn = example_promptFn
      and args = "''red''"] s d g ok
  show ?thesis by simp
qed

section \<open>The evaluator\<close>

text \<open>
  The two nested loops of \<^verbatim>\<open>run\<close> execute the trials in sequence.
\<close>

lemma for_trials_append:
  "for_trials this now fn (xs @ ys) locals w =
     (case for_trials this now fn xs locals w of
        (Inl e, w') \<Rightarrow> (Inl e, w')
      | (Inr locals', w') \<Rightarrow> for_trials this now fn ys locals' w')"
  by (induction xs arbitrary: locals w) (auto split: sum.splits prod.splits)

lemma counter_below_bound: "real i < x \<longleftrightarrow> i < nat \<lceil>x\<rceil>"
proof -
  have "real i < x \<longleftrightarrow> of_int (int i) < x" by simp
  also have "\<dots> \<longleftrightarrow> int i < \<lceil>x\<rceil>" by (simp only: less_ceiling_iff)
  also have "\<dots> \<longleftrightarrow> i < nat \<lceil>x\<rceil>" by linarith
  finally show ?thesis .
qed

lemma for_iterations_trials:
  "for_iterations this now fn testCase i locals w =
     for_trials this now fn (replicate (nat \<lceil>iterations (config this)\<rceil> - i) testCase) locals w"
proof (induction this now fn testCase i locals w rule: for_iterations.induct)
  case (1 this now fn testCase i locals w)
  let ?n = "nat \<lceil>iterations (config this)\<rceil>"
  show ?case
  proof (cases "real i < iterations (config this)")
    case True
    then have "i < ?n" by (simp add: counter_below_bound)
    then have "?n - i = Suc (?n - (i + 1))" by arith
    then have rep: "replicate (?n - i) testCase = testCase # replicate (?n - (i + 1)) testCase"
      by (simp only: replicate_Suc)
    have unfold: "for_iterations this now fn testCase i locals w =
        (case trial this now fn testCase locals w of
           (Inl e, w') \<Rightarrow> (Inl e, w')
         | (Inr locals', w') \<Rightarrow> for_iterations this now fn testCase (i + 1) locals' w')"
      by (subst for_iterations.simps) (simp only: True if_True)
    show ?thesis
    proof (cases "trial this now fn testCase locals w")
      case (Pair outcome w')
      show ?thesis
      proof (cases outcome)
        case (Inl e)
        with Pair show ?thesis
          by (simp only: unfold rep for_trials.simps prod.case sum.case)
      next
        case (Inr locals')
        have "for_iterations this now fn testCase (i + 1) locals' w' =
                for_trials this now fn (replicate (?n - (i + 1)) testCase) locals' w'"
          using "1.IH" [OF True] Pair Inr by simp
        with Pair Inr show ?thesis
          by (simp only: unfold rep for_trials.simps prod.case sum.case)
      qed
    qed
  next
    case False
    then have "\<not> i < ?n" by (simp add: counter_below_bound)
    then have "?n - i = 0" by arith
    then have rep: "replicate (?n - i) testCase = []" by simp
    have "for_iterations this now fn testCase i locals w = (Inr locals, w)"
      by (subst for_iterations.simps) (simp only: False if_False)
    then show ?thesis by (simp only: rep for_trials.simps)
  qed
qed

lemma for_testCases_trials:
  "for_testCases this now fn tcs locals w =
     for_trials this now fn
       (concat (map (replicate (nat \<lceil>iterations (config this)\<rceil>)) tcs)) locals w"
proof (induction tcs arbitrary: locals w)
  case Nil
  show ?case by simp
next
  case (Cons tc tcs)
  show ?case
    by (simp add: for_iterations_trials for_trials_append Cons.IH
        del: for_iterations.simps split: sum.splits prod.splits)
qed

lemma trials_nat_iterations:
  "iterations (config this) = real M \<Longrightarrow>
     trials this = concat (map (replicate M) (EvalConfig_fields.testCases (config this)))"
  by (simp add: trials_def)

lemma trials_nonpositive_iterations:
  "iterations (config this) \<le> 0 \<Longrightarrow> trials this = []"
proof -
  assume "iterations (config this) \<le> 0"
  then have "\<lceil>iterations (config this)\<rceil> \<le> 0" by (simp add: ceiling_le_iff)
  then have "nat \<lceil>iterations (config this)\<rceil> = 0" by simp
  then show ?thesis by (simp add: trials_def)
qed

lemma length_concat_replicate: "length (concat (map (replicate M) tcs)) = length tcs * M"
  by (induction tcs) simp_all

lemma nth_concat_replicate:
  "k < length tcs * M \<Longrightarrow> concat (map (replicate M) tcs) ! k = tcs ! (k div M)"
proof (induction tcs arbitrary: k)
  case Nil
  then show ?case by simp
next
  case (Cons t tcs)
  have M: "0 < M" using Cons.prems by (cases M) simp_all
  show ?case
  proof (cases "k < M")
    case True
    then show ?thesis by (simp add: nth_append)
  next
    case False
    then have ge: "M \<le> k" by simp
    then have "k - M < length tcs * M" using Cons.prems by simp
    from Cons.IH [OF this] have "concat (map (replicate M) tcs) ! (k - M) = tcs ! ((k - M) div M)" .
    moreover have "k div M = Suc ((k - M) div M)"
      using ge M by (simp add: le_div_geq)
    ultimately show ?thesis using False by (simp add: nth_append)
  qed
qed

lemma example_config_merged:
  "config (lampEval example_EvalConfig) =
     \<lparr>iterations = 2, EvalConfig_fields.testCases = example_testCases,
      evaluator = example_evaluator, benchmark = True\<rparr>"
  by (simp add: lampEval_def Evaluator_constructor_def example_EvalConfig_def)

lemma example_trials:
  "trials (lampEval example_EvalConfig)
     = [\<lparr>input = (3, ''red''), output = ''''\<rparr>, \<lparr>input = (3, ''red''), output = ''''\<rparr>]"
  by (simp add: trials_def example_config_merged example_testCases_def eval_nat_numeral)

text \<open>
  What one trial pushes, and what the loops have pushed when they are done.
\<close>

lemma trial_resolved:
  assumes "trial this now fn testCase locals w = (Inr locals', w')"
  shows "\<exists>result score w1.
           fn (input testCase) w = (Inr result, w1)
         \<and> evaluator (config this) testCase result w1 = (Inr score, w')
         \<and> run_locals.responses locals' = run_locals.responses locals @ [result]
         \<and> run_locals.promptTokens locals'
             = run_locals.promptTokens locals @ [Usage.promptTokens (usage result)]
         \<and> responseTokens locals'
             = responseTokens locals @ [Usage.completionTokens (usage result)]
         \<and> run_locals.executionTimes locals'
             = (if benchmark (config this)
                then run_locals.executionTimes locals @ [now w1 - now w]
                else run_locals.executionTimes locals)
         \<and> run_locals.scores locals' = run_locals.scores locals @ [score]"
  using assms
  by (auto simp: trial_def Let_def split: sum.splits prod.splits if_splits)

lemma records_chain_trial:
  assumes b: "benchmark (config this)"
      and r: "records_chain this now fn ts locals ws"
      and t: "trial this now fn testCase locals (ws ! length ts) = (Inr locals', w')"
  shows "records_chain this now fn (ts @ [testCase]) locals' (ws @ [w'])"
proof -
  from trial_resolved [OF t] b obtain result score called where
    f: "fn (input testCase) (ws ! length ts) = (Inr result, called)"
    and e: "evaluator (config this) testCase result called = (Inr score, w')"
    and l: "run_locals.responses locals' = run_locals.responses locals @ [result]"
      "run_locals.promptTokens locals'
         = run_locals.promptTokens locals @ [Usage.promptTokens (usage result)]"
      "responseTokens locals' = responseTokens locals @ [Usage.completionTokens (usage result)]"
      "run_locals.executionTimes locals'
         = run_locals.executionTimes locals @ [now called - now (ws ! length ts)]"
      "run_locals.scores locals' = run_locals.scores locals @ [score]"
    by auto
  have new: "trial_between this now fn testCase result score
               (now called - now (ws ! length ts)) (ws ! length ts) w'"
    using f e by (auto simp: trial_between_def)
  from r have len: "length (run_locals.responses locals) = length ts"
      "length (run_locals.scores locals) = length ts"
      "length (run_locals.promptTokens locals) = length ts"
      "length (responseTokens locals) = length ts"
      "length (run_locals.executionTimes locals) = length ts"
      "length ws = Suc (length ts)"
    by (simp_all add: records_chain_def)
  from r have old: "\<And>k. k < length ts \<Longrightarrow>
            run_locals.promptTokens locals ! k
              = Usage.promptTokens (usage (run_locals.responses locals ! k))
          \<and> responseTokens locals ! k
              = Usage.completionTokens (usage (run_locals.responses locals ! k))
          \<and> trial_between this now fn (ts ! k) (run_locals.responses locals ! k)
                (run_locals.scores locals ! k) (run_locals.executionTimes locals ! k)
                (ws ! k) (ws ! Suc k)"
    by (simp add: records_chain_def)
  show ?thesis
    unfolding records_chain_def
  proof (intro conjI allI impI)
    fix k assume "k < length (ts @ [testCase])"
    then consider "k < length ts" | "k = length ts" by fastforce
    then show "run_locals.promptTokens locals' ! k
              = Usage.promptTokens (usage (run_locals.responses locals' ! k))"
      using old len l by cases (simp_all add: nth_append)
  next
    fix k assume "k < length (ts @ [testCase])"
    then consider "k < length ts" | "k = length ts" by fastforce
    then show "responseTokens locals' ! k
              = Usage.completionTokens (usage (run_locals.responses locals' ! k))"
      using old len l by cases (simp_all add: nth_append)
  next
    fix k assume "k < length (ts @ [testCase])"
    then consider "k < length ts" | "k = length ts" by fastforce
    then show "trial_between this now fn ((ts @ [testCase]) ! k) (run_locals.responses locals' ! k)
                (run_locals.scores locals' ! k) (run_locals.executionTimes locals' ! k)
                ((ws @ [w']) ! k) ((ws @ [w']) ! Suc k)"
      using old len l new by cases (simp_all add: nth_append)
  qed (simp_all add: len l)
qed

lemma records_chain_for_trials:
  assumes "benchmark (config this)"
  shows "records_chain this now fn ts locals ws
         \<Longrightarrow> for_trials this now fn xs locals (ws ! length ts) = (Inr locals', w')
         \<Longrightarrow> \<exists>ws'. records_chain this now fn (ts @ xs) locals' ws'
                  \<and> ws' ! 0 = ws ! 0 \<and> ws' ! length (ts @ xs) = w'"
proof (induction xs arbitrary: ts locals ws)
  case Nil
  then show ?case by auto
next
  case (Cons x xs)
  from Cons.prems(2) obtain l1 w1 where
    t: "trial this now fn x locals (ws ! length ts) = (Inr l1, w1)"
    and rest: "for_trials this now fn xs l1 w1 = (Inr locals', w')"
    by (auto split: sum.splits prod.splits)
  have len: "length ws = Suc (length ts)"
    using Cons.prems(1) by (simp add: records_chain_def)
  have step: "records_chain this now fn (ts @ [x]) l1 (ws @ [w1])"
    by (rule records_chain_trial [OF assms Cons.prems(1) t])
  have at: "(ws @ [w1]) ! length (ts @ [x]) = w1"
    using len by (simp add: nth_append)
  from Cons.IH [OF step, unfolded at, OF rest]
  obtain ws' where "records_chain this now fn ((ts @ [x]) @ xs) locals' ws'"
    "ws' ! 0 = (ws @ [w1]) ! 0" "ws' ! length ((ts @ [x]) @ xs) = w'"
    by blast
  moreover have "(ws @ [w1]) ! 0 = ws ! 0" using len by (simp add: nth_append)
  ultimately show ?case by auto
qed

lemma records_chain_no_locals: "records_chain this now fn [] no_locals [w]"
  by (simp add: records_chain_def no_locals_def)

lemma for_trials_resolves:
  assumes f: "\<forall>p w. \<exists>r w'. fn p w = (Inr r, w')"
      and e: "\<forall>tc r w. \<exists>s w'. evaluator (config this) tc r w = (Inr s, w')"
  shows "\<exists>locals' w'. for_trials this now fn xs locals w = (Inr locals', w')"
proof (induction xs arbitrary: locals w)
  case Nil
  show ?case by simp
next
  case (Cons x xs)
  obtain r w1 where r: "fn (input x) w = (Inr r, w1)" using f by blast
  obtain s w2 where s: "evaluator (config this) x r w1 = (Inr s, w2)" using e by blast
  have "\<exists>l1. trial this now fn x locals w = (Inr l1, w2)"
    using r s by (simp add: trial_def Let_def)
  then obtain l1 where "trial this now fn x locals w = (Inr l1, w2)" ..
  then show ?case using Cons.IH [of l1 w2] by simp
qed

lemma executionTimes_without_benchmark:
  assumes "\<not> benchmark (config this)"
  shows "for_trials this now fn xs locals w = (Inr locals', w')
         \<Longrightarrow> run_locals.executionTimes locals' = run_locals.executionTimes locals"
proof (induction xs arbitrary: locals w)
  case Nil
  then show ?case by simp
next
  case (Cons x xs)
  from Cons.prems obtain l1 w1 where
    t: "trial this now fn x locals w = (Inr l1, w1)"
    and rest: "for_trials this now fn xs l1 w1 = (Inr locals', w')"
    by (auto split: sum.splits prod.splits)
  from trial_resolved [OF t] assms
  have "run_locals.executionTimes l1 = run_locals.executionTimes locals" by auto
  with Cons.IH [OF rest] show ?case by simp
qed

text \<open>
  \<^verbatim>\<open>run\<close> after its loops: the statistics of the four series, in the order of the object
  literal it returns.
\<close>

lemma with_values_describe:
  "xs \<noteq> [] \<Longrightarrow> \<exists>s. (with_values xs (describe xs) :: 'e thrown + Series) = Inr s \<and> values s = xs"
  by (simp add: with_values_def describe_def Let_def)

lemma with_values_empty:
  "(with_values [] (describe []) :: 'e thrown + Series) = Inl (Error ''Input array is empty'')"
  by (simp add: with_values_def describe_def)

lemma run_trials:
  "run this now fn w =
     (case for_trials this now fn (trials this) no_locals w of
        (Inl e, w') \<Rightarrow> (Inl e, w')
      | (Inr locals, w') \<Rightarrow>
          (case with_values (run_locals.scores locals) (describe (run_locals.scores locals)) of
             Inl e \<Rightarrow> (Inl e, w')
           | Inr scores_series \<Rightarrow>
          (case with_values (run_locals.executionTimes locals)
                  (describe (run_locals.executionTimes locals)) of
             Inl e \<Rightarrow> (Inl e, w')
           | Inr executionTimes_series \<Rightarrow>
          (case with_values (run_locals.promptTokens locals)
                  (describe (run_locals.promptTokens locals)) of
             Inl e \<Rightarrow> (Inl e, w')
           | Inr promptTokens_series \<Rightarrow>
          (case with_values (responseTokens locals) (describe (responseTokens locals)) of
             Inl e \<Rightarrow> (Inl e, w')
           | Inr completionTokens_series \<Rightarrow>
               (Inr \<lparr>EvalResult.scores = scores_series,
                     EvalResult.executionTimes = executionTimes_series,
                     EvalResult.promptTokens = promptTokens_series,
                     EvalResult.completionTokens = completionTokens_series,
                     EvalResult.responses = run_locals.responses locals,
                     EvalResult.testCases = EvalConfig_fields.testCases (config this)\<rparr>,
                w'))))))"
proof -
  have "(if length (EvalConfig_fields.testCases (config this)) > 0
         then EvalConfig_fields.testCases (config this) else [])
        = EvalConfig_fields.testCases (config this)"
    by simp
  then show ?thesis
    by (simp add: run_def for_testCases_trials trials_def no_locals_def Let_def)
qed

lemma run_resolved:
  fixes this :: "('p, 'u, 'e, 'w) Evaluator"
  assumes t: "for_trials this now fn (trials this) no_locals w = (Inr locals, w')"
      and n: "run_locals.scores locals \<noteq> []" "run_locals.executionTimes locals \<noteq> []"
             "run_locals.promptTokens locals \<noteq> []" "responseTokens locals \<noteq> []"
  shows "\<exists>res. run this now fn w = (Inr res, w')
           \<and> values (EvalResult.scores res) = run_locals.scores locals
           \<and> values (EvalResult.executionTimes res) = run_locals.executionTimes locals
           \<and> values (EvalResult.promptTokens res) = run_locals.promptTokens locals
           \<and> values (EvalResult.completionTokens res) = responseTokens locals
           \<and> EvalResult.responses res = run_locals.responses locals
           \<and> EvalResult.testCases res = EvalConfig_fields.testCases (config this)"
proof -
  obtain s1 where s1: "(with_values (run_locals.scores locals)
      (describe (run_locals.scores locals)) :: 'e thrown + Series) = Inr s1"
      "values s1 = run_locals.scores locals"
    using with_values_describe [OF n(1)] by blast
  obtain s2 where s2: "(with_values (run_locals.executionTimes locals)
      (describe (run_locals.executionTimes locals)) :: 'e thrown + Series) = Inr s2"
      "values s2 = run_locals.executionTimes locals"
    using with_values_describe [OF n(2)] by blast
  obtain s3 where s3: "(with_values (run_locals.promptTokens locals)
      (describe (run_locals.promptTokens locals)) :: 'e thrown + Series) = Inr s3"
      "values s3 = run_locals.promptTokens locals"
    using with_values_describe [OF n(3)] by blast
  obtain s4 where s4: "(with_values (responseTokens locals)
      (describe (responseTokens locals)) :: 'e thrown + Series) = Inr s4"
      "values s4 = responseTokens locals"
    using with_values_describe [OF n(4)] by blast
  show ?thesis
    by (simp add: run_trials t s1 s2 s3 s4)
qed

lemma run_without_benchmark:
  fixes this :: "('p, 'u, 'e, 'w) Evaluator"
  assumes nb: "\<not> benchmark (config this)"
      and t: "for_trials this now fn (trials this) no_locals w = (Inr locals, w')"
  shows "run this now fn w = (Inl (Error ''Input array is empty''), w')"
proof -
  have "run_locals.executionTimes locals = run_locals.executionTimes (no_locals :: 'u run_locals)"
    by (rule executionTimes_without_benchmark [OF nb t])
  then have et: "run_locals.executionTimes locals = []" by (simp add: no_locals_def)
  show ?thesis
  proof (cases "run_locals.scores locals = []")
    case True
    then show ?thesis by (simp add: run_trials t with_values_empty)
  next
    case False
    from with_values_describe [OF False, where ?'e = 'e] obtain s1 where
      "(with_values (run_locals.scores locals) (describe (run_locals.scores locals))
          :: 'e thrown + Series) = Inr s1" by blast
    then show ?thesis by (simp add: run_trials t et with_values_empty)
  qed
qed

text \<open>
  C3, as the code has it. For every evaluator with \<open>N \<ge> 1\<close> test cases, \<open>M \<ge> 1\<close> iterations
  and benchmark enabled, and every invoker and evaluator function that always resolve,
  \<^verbatim>\<open>run\<close> returns a result whose series of scores, responses, prompt tokens, completion
  tokens and execution times each have length \<open>N * M\<close>, and whose test cases are those of
  the configuration. The trials run one after another through the states \<open>ws\<close>, the first
  from the state \<^verbatim>\<open>run\<close> was called in and the last into the state it returns in. At every
  index \<open>k\<close> below \<open>N * M\<close> the two token counts are the usage fields of the response at \<open>k\<close>;
  that response is what the invoker resolved to on the input of test case \<open>k div M\<close> in the
  state the trial at \<open>k - 1\<close> left, the score at \<open>k\<close> is what the evaluator function resolved
  to on that test case and that response, and the execution time at \<open>k\<close> is the time the
  clock advanced during that invocation. So the \<open>M\<close> trials of a test case stand at
  consecutive indices in the order they ran: iteration \<open>k mod M\<close> of test case \<open>k div M\<close> at
  index \<open>k\<close>.
\<close>

theorem run_series_indexed:
  fixes this :: "('p, 'u, 'e, 'w) Evaluator"
  assumes bench: "benchmark (config this)"
      and tcs: "EvalConfig_fields.testCases (config this) = tcs" "tcs \<noteq> []"
      and its: "iterations (config this) = real M" "0 < M"
      and f: "\<forall>p w. \<exists>r w'. fn p w = (Inr r, w')"
      and e: "\<forall>tc r w. \<exists>s w'. evaluator (config this) tc r w = (Inr s, w')"
  shows "\<exists>res w' ws. run this now fn w = (Inr res, w')
           \<and> length (values (EvalResult.scores res)) = length tcs * M
           \<and> length (EvalResult.responses res) = length tcs * M
           \<and> length (values (EvalResult.promptTokens res)) = length tcs * M
           \<and> length (values (EvalResult.completionTokens res)) = length tcs * M
           \<and> length (values (EvalResult.executionTimes res)) = length tcs * M
           \<and> EvalResult.testCases res = tcs
           \<and> length ws = Suc (length tcs * M) \<and> ws ! 0 = w \<and> ws ! (length tcs * M) = w'
           \<and> (\<forall>k < length tcs * M.
                 values (EvalResult.promptTokens res) ! k
                   = Usage.promptTokens (usage (EvalResult.responses res ! k))
               \<and> values (EvalResult.completionTokens res) ! k
                   = Usage.completionTokens (usage (EvalResult.responses res ! k))
               \<and> (\<exists>called.
                     fn (input (tcs ! (k div M))) (ws ! k)
                       = (Inr (EvalResult.responses res ! k), called)
                   \<and> evaluator (config this) (tcs ! (k div M)) (EvalResult.responses res ! k)
                         called
                       = (Inr (values (EvalResult.scores res) ! k), ws ! Suc k)
                   \<and> values (EvalResult.executionTimes res) ! k = now called - now (ws ! k)))"
proof -
  have ts: "trials this = concat (map (replicate M) tcs)"
    using trials_nat_iterations [OF its(1)] tcs(1) by simp
  have len: "length (trials this) = length tcs * M"
    by (simp add: ts length_concat_replicate)
  have pos: "0 < length tcs * M" using tcs(2) its(2) by simp
  obtain locals w' where run: "for_trials this now fn (trials this) no_locals w = (Inr locals, w')"
    using for_trials_resolves [OF f e] by blast
  have start: "records_chain this now fn [] no_locals [w]"
    by (rule records_chain_no_locals)
  have "for_trials this now fn (trials this) no_locals ([w] ! length ([] :: 'p TestCase list))
          = (Inr locals, w')"
    using run by simp
  from records_chain_for_trials [OF bench start this]
  obtain ws where rec: "records_chain this now fn (trials this) locals ws"
    and first: "ws ! 0 = w" and final: "ws ! length (trials this) = w'"
    by auto
  from rec have l: "length (run_locals.responses locals) = length tcs * M"
      "length (run_locals.scores locals) = length tcs * M"
      "length (run_locals.promptTokens locals) = length tcs * M"
      "length (responseTokens locals) = length tcs * M"
      "length (run_locals.executionTimes locals) = length tcs * M"
      "length ws = Suc (length tcs * M)"
    by (simp_all add: records_chain_def len)
  then have ne: "run_locals.scores locals \<noteq> []" "run_locals.executionTimes locals \<noteq> []"
             "run_locals.promptTokens locals \<noteq> []" "responseTokens locals \<noteq> []"
    using pos by auto
  from run_resolved [OF run ne] obtain res where res: "run this now fn w = (Inr res, w')"
      "values (EvalResult.scores res) = run_locals.scores locals"
      "values (EvalResult.executionTimes res) = run_locals.executionTimes locals"
      "values (EvalResult.promptTokens res) = run_locals.promptTokens locals"
      "values (EvalResult.completionTokens res) = responseTokens locals"
      "EvalResult.responses res = run_locals.responses locals"
      "EvalResult.testCases res = EvalConfig_fields.testCases (config this)"
    by blast
  have idx: "\<forall>k < length tcs * M.
                 run_locals.promptTokens locals ! k
                   = Usage.promptTokens (usage (run_locals.responses locals ! k))
               \<and> responseTokens locals ! k
                   = Usage.completionTokens (usage (run_locals.responses locals ! k))
               \<and> (\<exists>called.
                     fn (input (tcs ! (k div M))) (ws ! k)
                       = (Inr (run_locals.responses locals ! k), called)
                   \<and> evaluator (config this) (tcs ! (k div M)) (run_locals.responses locals ! k)
                         called
                       = (Inr (run_locals.scores locals ! k), ws ! Suc k)
                   \<and> run_locals.executionTimes locals ! k = now called - now (ws ! k))"
  proof (intro allI impI)
    fix k assume k: "k < length tcs * M"
    then have "k < length (trials this)" by (simp add: len)
    with rec have "run_locals.promptTokens locals ! k
              = Usage.promptTokens (usage (run_locals.responses locals ! k))
          \<and> responseTokens locals ! k
              = Usage.completionTokens (usage (run_locals.responses locals ! k))
          \<and> trial_between this now fn (trials this ! k) (run_locals.responses locals ! k)
                (run_locals.scores locals ! k) (run_locals.executionTimes locals ! k)
                (ws ! k) (ws ! Suc k)"
      by (simp add: records_chain_def)
    moreover have "trials this ! k = tcs ! (k div M)"
      using nth_concat_replicate [OF k] by (simp add: ts)
    ultimately show "run_locals.promptTokens locals ! k
                   = Usage.promptTokens (usage (run_locals.responses locals ! k))
               \<and> responseTokens locals ! k
                   = Usage.completionTokens (usage (run_locals.responses locals ! k))
               \<and> (\<exists>called.
                     fn (input (tcs ! (k div M))) (ws ! k)
                       = (Inr (run_locals.responses locals ! k), called)
                   \<and> evaluator (config this) (tcs ! (k div M)) (run_locals.responses locals ! k)
                         called
                       = (Inr (run_locals.scores locals ! k), ws ! Suc k)
                   \<and> run_locals.executionTimes locals ! k = now called - now (ws ! k))"
      by (simp add: trial_between_def)
  qed
  have fin: "ws ! (length tcs * M) = w'" using final by (simp add: len)
  show ?thesis
    using res l idx tcs(1) first fin
    by (intro exI [of _ res] exI [of _ w'] exI [of _ ws]) simp
qed

theorem run_series_indexed_witness:
  "benchmark (config (lampEval example_EvalConfig))
   \<and> EvalConfig_fields.testCases (config (lampEval example_EvalConfig)) = example_testCases
   \<and> example_testCases \<noteq> []
   \<and> iterations (config (lampEval example_EvalConfig)) = real 2
   \<and> (\<exists>res w' ws. run (lampEval example_EvalConfig) example_now example_invoker 0 = (Inr res, w')
         \<and> length (values (EvalResult.scores res)) = 2
         \<and> length (EvalResult.responses res) = 2
         \<and> length (values (EvalResult.promptTokens res)) = 2
         \<and> length (values (EvalResult.completionTokens res)) = 2
         \<and> length (values (EvalResult.executionTimes res)) = 2
         \<and> length ws = 3 \<and> ws ! 0 = 0 \<and> ws ! 2 = w'
         \<and> values (EvalResult.promptTokens res) ! 1
             = Usage.promptTokens (usage (EvalResult.responses res ! 1)))"
proof -
  have b: "benchmark (config (lampEval example_EvalConfig))"
    and t: "EvalConfig_fields.testCases (config (lampEval example_EvalConfig)) = example_testCases"
    and i: "iterations (config (lampEval example_EvalConfig)) = real 2"
    by (simp_all add: example_config_merged)
  have ne: "example_testCases \<noteq> []" by (simp add: example_testCases_def)
  have m: "0 < (2 :: nat)" by simp
  have f: "\<forall>p w. \<exists>r w'. example_invoker p w = (Inr r, w')"
    by (simp add: example_invoker_def)
  have e: "\<forall>tc r w. \<exists>s w'.
             evaluator (config (lampEval example_EvalConfig)) tc r w = (Inr s, w')"
    by (simp add: example_config_merged example_evaluator_def)
  have l: "length example_testCases * 2 = 2" by (simp add: example_testCases_def)
  from run_series_indexed [OF b t ne i m f e, of example_now 0]
  obtain res w' ws where
    "run (lampEval example_EvalConfig) example_now example_invoker 0 = (Inr res, w')"
    "length (values (EvalResult.scores res)) = length example_testCases * 2"
    "length (EvalResult.responses res) = length example_testCases * 2"
    "length (values (EvalResult.promptTokens res)) = length example_testCases * 2"
    "length (values (EvalResult.completionTokens res)) = length example_testCases * 2"
    "length (values (EvalResult.executionTimes res)) = length example_testCases * 2"
    "length ws = Suc (length example_testCases * 2)" "ws ! 0 = 0"
    "ws ! (length example_testCases * 2) = w'"
    "\<forall>k < length example_testCases * 2.
        values (EvalResult.promptTokens res) ! k
          = Usage.promptTokens (usage (EvalResult.responses res ! k))"
    by blast
  then show ?thesis using b t ne i unfolding l by auto
qed

text \<open>
  C3, as the claim states it, fails for \<open>N = 0\<close>: with benchmark enabled, one iteration, an
  invoker and an evaluator function that always resolve and no test case, \<^verbatim>\<open>run\<close> returns
  no series of length 0 but fails.
\<close>

theorem run_series_no_testCases_counterexample:
  "benchmark (config (lampEval (example_EvalConfig\<lparr>EvalConfig_fields.testCases := Some []\<rparr>)))
   \<and> length (EvalConfig_fields.testCases
               (config (lampEval (example_EvalConfig\<lparr>EvalConfig_fields.testCases := Some []\<rparr>))))
       = 0
   \<and> run (lampEval (example_EvalConfig\<lparr>EvalConfig_fields.testCases := Some []\<rparr>))
         example_now example_invoker 0
       = (Inl (Error ''Input array is empty''), 0)"
  by (simp add: run_trials trials_def no_locals_def with_values_empty lampEval_def
      Evaluator_constructor_def example_EvalConfig_def)

text \<open>
  C4. Statistics over an empty series fail: \<^verbatim>\<open>describe([])\<close> throws the error
  \<^verbatim>\<open>Input array is empty\<close>. Hence \<^verbatim>\<open>run\<close> fails with that error, and without a call of the
  invoker, when the configuration has no test case; and with benchmark disabled \<^verbatim>\<open>run\<close>
  never returns a result: it fails, and when the invoker and the evaluator function always
  resolve it fails with that same error, for the empty series of execution times.
\<close>

theorem empty_series_fail:
  fixes this :: "('p, 'u, 'e, 'w) Evaluator"
  shows "(describe [] :: 'e thrown + StatisticsResult) = Inl (Error ''Input array is empty'')
       \<and> (EvalConfig_fields.testCases (config this) = [] \<longrightarrow>
            run this now fn w = (Inl (Error ''Input array is empty''), w))
       \<and> (\<not> benchmark (config this) \<longrightarrow> (\<exists>err w'. run this now fn w = (Inl err, w')))
       \<and> (\<not> benchmark (config this)
            \<and> (\<forall>p w. \<exists>r w'. fn p w = (Inr r, w'))
            \<and> (\<forall>tc r w. \<exists>s w'. evaluator (config this) tc r w = (Inr s, w'))
            \<longrightarrow> (\<exists>w'. run this now fn w = (Inl (Error ''Input array is empty''), w')))"
proof (intro conjI impI)
  show "(describe [] :: 'e thrown + StatisticsResult) = Inl (Error ''Input array is empty'')"
    by (simp add: describe_def)
next
  assume "EvalConfig_fields.testCases (config this) = []"
  then have "trials this = []" by (simp add: trials_def)
  then show "run this now fn w = (Inl (Error ''Input array is empty''), w)"
    by (simp add: run_trials no_locals_def with_values_empty)
next
  assume nb: "\<not> benchmark (config this)"
  show "\<exists>err w'. run this now fn w = (Inl err, w')"
  proof (cases "for_trials this now fn (trials this) no_locals w")
    case (Pair outcome w')
    show ?thesis
    proof (cases outcome)
      case (Inl err)
      with Pair show ?thesis by (simp add: run_trials)
    next
      case (Inr locals)
      with Pair run_without_benchmark [OF nb, of now fn w locals w'] show ?thesis by blast
    qed
  qed
next
  assume a: "\<not> benchmark (config this)
            \<and> (\<forall>p w. \<exists>r w'. fn p w = (Inr r, w'))
            \<and> (\<forall>tc r w. \<exists>s w'. evaluator (config this) tc r w = (Inr s, w'))"
  then obtain locals w' where "for_trials this now fn (trials this) no_locals w = (Inr locals, w')"
    using for_trials_resolves [of fn this now "trials this" no_locals w] by blast
  with a run_without_benchmark [of this now fn w locals w']
  show "\<exists>w'. run this now fn w = (Inl (Error ''Input array is empty''), w')" by blast
qed

theorem empty_series_fail_witness:
  "EvalConfig_fields.testCases
      (config (lampEval (example_EvalConfig\<lparr>EvalConfig_fields.testCases := None\<rparr>))) = []
   \<and> run (lampEval (example_EvalConfig\<lparr>EvalConfig_fields.testCases := None\<rparr>))
         example_now example_invoker 0 = (Inl (Error ''Input array is empty''), 0)
   \<and> \<not> benchmark (config (lampEval (example_EvalConfig\<lparr>benchmark := Some False\<rparr>)))
   \<and> (\<exists>w'. run (lampEval (example_EvalConfig\<lparr>benchmark := Some False\<rparr>))
              example_now example_invoker 0 = (Inl (Error ''Input array is empty''), w'))"
proof -
  let ?none = "lampEval (example_EvalConfig\<lparr>EvalConfig_fields.testCases := None\<rparr>)"
  let ?off = "lampEval (example_EvalConfig\<lparr>benchmark := Some False\<rparr>)"
  have t: "EvalConfig_fields.testCases (config ?none) = []"
    by (simp add: lampEval_def Evaluator_constructor_def)
  have nb: "\<not> benchmark (config ?off)"
    by (simp add: lampEval_def Evaluator_constructor_def)
  have f: "\<forall>p w. \<exists>r w'. example_invoker p w = (Inr r, w')"
    by (simp add: example_invoker_def)
  have e: "\<forall>tc r w. \<exists>s w'. evaluator (config ?off) tc r w = (Inr s, w')"
    by (simp add: lampEval_def Evaluator_constructor_def example_EvalConfig_def
        example_evaluator_def)
  from empty_series_fail [of ?none example_now example_invoker 0] t
  have a: "run ?none example_now example_invoker 0 = (Inl (Error ''Input array is empty''), 0)"
    by blast
  from empty_series_fail [of ?off example_now example_invoker 0] nb f e
  have b: "\<exists>w'. run ?off example_now example_invoker 0 = (Inl (Error ''Input array is empty''), w')"
    by blast
  from t a nb b show ?thesis by blast
qed

text \<open>
  C9. If the configuration supplies iterations \<open>m \<le> 0\<close>, the merge with the defaults keeps
  \<open>m\<close>, the loops of \<^verbatim>\<open>run\<close> over the test cases end with the five arrays empty and the
  state of the world untouched (no trial, whatever the test cases), and \<^verbatim>\<open>run\<close> fails with
  the error \<^verbatim>\<open>Input array is empty\<close>.
\<close>

theorem nonpositive_iterations_kept:
  fixes cfg :: "('p, 'u, 'e, 'w) EvalConfig"
  assumes "iterations cfg = Some m" and "m \<le> 0"
  shows "iterations (config (lampEval cfg)) = m
       \<and> for_testCases (lampEval cfg) now fn
            (EvalConfig_fields.testCases (config (lampEval cfg))) no_locals w
           = (Inr no_locals, w)
       \<and> run (lampEval cfg) now fn w = (Inl (Error ''Input array is empty''), w)"
proof -
  have i: "iterations (config (lampEval cfg)) = m"
    using assms(1) by (simp add: lampEval_def Evaluator_constructor_def)
  then have none: "trials (lampEval cfg) = []"
    using assms(2) by (simp add: trials_nonpositive_iterations)
  have "for_testCases (lampEval cfg) now fn
          (EvalConfig_fields.testCases (config (lampEval cfg))) no_locals w
        = for_trials (lampEval cfg) now fn (trials (lampEval cfg)) no_locals w"
    by (simp only: for_testCases_trials trials_def)
  then have loops: "for_testCases (lampEval cfg) now fn
          (EvalConfig_fields.testCases (config (lampEval cfg))) no_locals w = (Inr no_locals, w)"
    by (simp add: none)
  have "run (lampEval cfg) now fn w = (Inl (Error ''Input array is empty''), w)"
    using none by (simp add: run_trials no_locals_def with_values_empty)
  with i loops show ?thesis by simp
qed

theorem nonpositive_iterations_kept_witness:
  "iterations (example_EvalConfig\<lparr>iterations := Some 0\<rparr>) = Some 0
   \<and> EvalConfig_fields.testCases
        (config (lampEval (example_EvalConfig\<lparr>iterations := Some 0\<rparr>))) = example_testCases
   \<and> iterations (config (lampEval (example_EvalConfig\<lparr>iterations := Some 0\<rparr>))) = 0
   \<and> for_testCases (lampEval (example_EvalConfig\<lparr>iterations := Some 0\<rparr>)) example_now
        example_invoker example_testCases no_locals 0 = (Inr no_locals, 0)
   \<and> run (lampEval (example_EvalConfig\<lparr>iterations := Some 0\<rparr>)) example_now example_invoker 0
       = (Inl (Error ''Input array is empty''), 0)"
proof -
  have i: "iterations (example_EvalConfig\<lparr>iterations := Some 0\<rparr>) = Some 0" by simp
  have z: "(0 :: real) \<le> 0" by simp
  have t: "EvalConfig_fields.testCases
        (config (lampEval (example_EvalConfig\<lparr>iterations := Some 0\<rparr>))) = example_testCases"
    by (simp add: lampEval_def Evaluator_constructor_def example_EvalConfig_def)
  from nonpositive_iterations_kept [OF i z, of example_now example_invoker 0] i
  show ?thesis unfolding t by simp
qed

section \<open>Faults\<close>

lemma lamp_text_fault:
  assumes "schema cfg = None"
      and "generateText (forwarded_options cfg (promptFn args)) v = (Inl x, v')"
  shows "lamp generateText generateObject JSON_stringify cfg promptFn args (v, out)
           = (Inl x, (v', out))"
proof -
  have "generateText
      (LMPConfig.extend cfg
         (GenerateOptions.fields (fst (prompt_parts (promptFn args)))
                                 (snd (prompt_parts (promptFn args))))) v = (Inl x, v')"
    using assms(2) by (simp only: forwarded_options_extend)
  then show ?thesis by (simp add: lamp_text_mode [OF assms(1)])
qed

lemma lamp_object_fault:
  assumes "schema cfg \<noteq> None"
      and "generateObject (forwarded_options cfg (promptFn args)) v = (Inl x, v')"
  shows "lamp generateText generateObject JSON_stringify cfg promptFn args (v, out)
           = (Inl x, (v', out))"
proof -
  from assms(1) obtain sch where sch: "schema cfg = Some sch" by auto
  have "generateObject
      (LMPConfig.extend cfg
         (GenerateOptions.fields (fst (prompt_parts (promptFn args)))
                                 (snd (prompt_parts (promptFn args))))) v = (Inl x, v')"
    using assms(2) by (simp only: forwarded_options_extend)
  then show ?thesis by (simp add: lamp_object_mode [OF sch])
qed

lemma run_aborts_in_trial:
  fixes this :: "('p, 'u, 'e, 'w) Evaluator"
  assumes k: "k < length (trials this)"
      and before: "for_trials this now fn (take k (trials this)) no_locals w = (Inr locals, w1)"
      and fault: "trial this now fn (trials this ! k) locals w1 = (Inl err, w2)"
  shows "run this now fn w = (Inl err, w2)"
proof -
  have "trials this = take k (trials this) @ (trials this ! k) # drop (Suc k) (trials this)"
    using k by (simp add: id_take_nth_drop [symmetric])
  then have "for_trials this now fn (trials this) no_locals w =
      for_trials this now fn (take k (trials this) @ (trials this ! k) # drop (Suc k) (trials this))
        no_locals w"
    by simp
  also have "\<dots> = (Inl err, w2)"
    by (simp only: for_trials_append before fault for_trials.simps prod.case sum.case)
  finally show ?thesis by (simp add: run_trials)
qed

text \<open>
  C7. When the external generation capability, called with the options a bound invoker
  forwards to it, throws or rejects, that fault is the outcome of the call of the bound
  invoker, unmodified, in the state the capability left and with nothing traced. In
  \<^verbatim>\<open>run\<close>, when the trials before the one at index \<open>k\<close> have resolved and in that trial the
  evaluator function throws or rejects, or the invoker does, the outcome of \<^verbatim>\<open>run\<close> is that
  fault in the state the faulting call left: no further trial is executed and no result is
  returned.
\<close>

theorem faults_abort_operation:
  fixes this :: "('p, 'u, 'e, 'w) Evaluator"
    and generateText ::
      "('sig, 'hdr, 'm, 'sch) GenerateOptions \<Rightarrow> (string \<times> Usage, 'x, 'v) promise"
  shows "(schema cfg = None
            \<and> generateText (forwarded_options cfg (promptFn args)) v = (Inl x, v') \<longrightarrow>
            lamp generateText generateObject JSON_stringify cfg promptFn args (v, out)
              = (Inl x, (v', out)))
       \<and> (schema cfg \<noteq> None
            \<and> generateObject (forwarded_options cfg (promptFn args)) v = (Inl x, v') \<longrightarrow>
            lamp generateText generateObject JSON_stringify cfg promptFn args (v, out)
              = (Inl x, (v', out)))
       \<and> (k < length (trials this)
            \<and> for_trials this now fn (take k (trials this)) no_locals w = (Inr locals, wa)
            \<and> fn (input (trials this ! k)) wa = (Inr r, wb)
            \<and> evaluator (config this) (trials this ! k) r wb = (Inl err, wc)
            \<longrightarrow> run this now fn w = (Inl err, wc))
       \<and> (k < length (trials this)
            \<and> for_trials this now fn (take k (trials this)) no_locals w = (Inr locals, wa)
            \<and> fn (input (trials this ! k)) wa = (Inl err, wb)
            \<longrightarrow> run this now fn w = (Inl err, wb))"
proof (intro conjI impI)
  assume "schema cfg = None
            \<and> generateText (forwarded_options cfg (promptFn args)) v = (Inl x, v')"
  then show "lamp generateText generateObject JSON_stringify cfg promptFn args (v, out)
              = (Inl x, (v', out))"
    by (intro lamp_text_fault) simp_all
next
  assume "schema cfg \<noteq> None
            \<and> generateObject (forwarded_options cfg (promptFn args)) v = (Inl x, v')"
  then show "lamp generateText generateObject JSON_stringify cfg promptFn args (v, out)
              = (Inl x, (v', out))"
    by (intro lamp_object_fault) simp_all
next
  assume a: "k < length (trials this)
            \<and> for_trials this now fn (take k (trials this)) no_locals w = (Inr locals, wa)
            \<and> fn (input (trials this ! k)) wa = (Inr r, wb)
            \<and> evaluator (config this) (trials this ! k) r wb = (Inl err, wc)"
  then have "trial this now fn (trials this ! k) locals wa = (Inl err, wc)"
    by (simp add: trial_def Let_def)
  with a show "run this now fn w = (Inl err, wc)"
    using run_aborts_in_trial [of k this now fn w locals wa err wc] by blast
next
  assume a: "k < length (trials this)
            \<and> for_trials this now fn (take k (trials this)) no_locals w = (Inr locals, wa)
            \<and> fn (input (trials this ! k)) wa = (Inl err, wb)"
  then have "trial this now fn (trials this ! k) locals wa = (Inl err, wb)"
    by (simp add: trial_def Let_def)
  with a show "run this now fn w = (Inl err, wb)"
    using run_aborts_in_trial [of k this now fn w locals wa err wb] by blast
qed

theorem faults_abort_operation_witness:
  "failing_generateText (forwarded_options example_config (example_promptFn ''red'')) 0
       = (Inl (Thrown ''rate limit''), Suc 0)
   \<and> lamp failing_generateText example_generateObject example_stringify example_config
        example_promptFn ''red'' (0, example_terminal)
       = (Inl (Thrown ''rate limit''), (Suc 0, example_terminal))
   \<and> failing_generateObject (forwarded_options example_object_config (example_promptFn ''red'')) 0
       = (Inl (Thrown ''schema mismatch''), Suc 0)
   \<and> lamp example_generateText failing_generateObject example_stringify example_object_config
        example_promptFn ''red'' (0, example_terminal)
       = (Inl (Thrown ''schema mismatch''), (Suc 0, example_terminal))
   \<and> length (trials (lampEval (example_EvalConfig\<lparr>evaluator := Some failing_evaluator\<rparr>))) = 2
   \<and> run (lampEval (example_EvalConfig\<lparr>evaluator := Some failing_evaluator\<rparr>))
        example_now example_invoker 0
       = (Inl (Thrown ''score is not a number''), 11)
   \<and> run (lampEval example_EvalConfig) example_now failing_invoker 0
       = (Inl (Thrown ''aborted''), 6)"
proof -
  let ?ev = "lampEval (example_EvalConfig\<lparr>evaluator := Some failing_evaluator\<rparr>)"
  let ?ex = "lampEval example_EvalConfig"
  let ?tc = "\<lparr>input = (3 :: nat, ''red''), output = ''''\<rparr>"
  let ?r = "\<lparr>text = Some ''apple, cherry, plum'', object = None :: string list option,
             usage = example_usage\<rparr>"
  let ?one = "\<lparr>run_locals.scores = [1], run_locals.responses = [?r],
               run_locals.promptTokens = [12], responseTokens = [7],
               run_locals.executionTimes = [5]\<rparr>"
  have s: "schema example_config = None" by (simp add: example_config_def)
  have so: "schema example_object_config \<noteq> None" by (simp add: example_object_config_def)
  have g: "failing_generateText (forwarded_options example_config (example_promptFn ''red'')) 0
             = (Inl (Thrown ''rate limit''), Suc 0)"
    by (simp add: failing_generateText_def forwarded_options_def example_config_def)
  have go: "failing_generateObject
              (forwarded_options example_object_config (example_promptFn ''red'')) 0
             = (Inl (Thrown ''schema mismatch''), Suc 0)"
    by (simp add: failing_generateObject_def forwarded_options_def example_object_config_def)
  have cfg: "config ?ev = \<lparr>iterations = 2, EvalConfig_fields.testCases = example_testCases,
      evaluator = failing_evaluator, benchmark = True\<rparr>"
    by (simp add: lampEval_def Evaluator_constructor_def example_EvalConfig_def)
  have ts: "trials ?ev = [?tc, ?tc]"
    by (simp add: trials_def cfg example_testCases_def eval_nat_numeral)
  have k: "1 < length (trials ?ev)" by (simp add: ts)
  have before: "for_trials ?ev example_now example_invoker (take 1 (trials ?ev)) no_locals 0
      = (Inr ?one, 5)"
    by (simp add: ts trial_def cfg example_invoker_def failing_evaluator_def example_now_def
        example_usage_def no_locals_def Let_def)
  have inv: "example_invoker (input (trials ?ev ! 1)) 5 = (Inr ?r, 10)"
    by (simp add: example_invoker_def)
  have ev: "evaluator (config ?ev) (trials ?ev ! 1) ?r 10
              = (Inl (Thrown ''score is not a number''), 11)"
    by (simp add: cfg failing_evaluator_def)
  have k2: "1 < length (trials ?ex)" by (simp add: example_trials)
  have before2: "for_trials ?ex example_now failing_invoker (take 1 (trials ?ex)) no_locals 0
      = (Inr ?one, 5)"
    by (simp add: example_trials trial_def example_config_merged failing_invoker_def
        example_evaluator_def example_now_def example_usage_def no_locals_def Let_def)
  have inv2: "failing_invoker (input (trials ?ex ! 1)) 5 = (Inl (Thrown ''aborted''), 6)"
    by (simp add: failing_invoker_def)
  from faults_abort_operation [where cfg = example_config and generateText = failing_generateText
      and v = 0 and x = "Thrown ''rate limit''" and v' = "Suc 0"
      and generateObject = example_generateObject and JSON_stringify = example_stringify
      and promptFn = example_promptFn and args = "''red''" and out = example_terminal
      and this = ?ev and k = 1 and now = example_now and fn = example_invoker and w = 0
      and wa = 5 and r = ?r and wb = 10 and wc = 11 and locals = ?one
      and err = "Thrown ''score is not a number''"] s g k before inv ev
  have a: "lamp failing_generateText example_generateObject example_stringify example_config
        example_promptFn ''red'' (0, example_terminal)
       = (Inl (Thrown ''rate limit''), (Suc 0, example_terminal))"
    and c: "run ?ev example_now example_invoker 0 = (Inl (Thrown ''score is not a number''), 11)"
    by simp_all
  from faults_abort_operation [where cfg = example_object_config
      and generateText = example_generateText
      and v = 0 and x = "Thrown ''schema mismatch''" and v' = "Suc 0"
      and generateObject = failing_generateObject and JSON_stringify = example_stringify
      and promptFn = example_promptFn and args = "''red''" and out = example_terminal
      and this = ?ex and k = 1 and now = example_now and fn = failing_invoker and w = 0
      and wa = 5 and wb = 6 and locals = ?one
      and err = "Thrown ''aborted''"] so go k2 before2 inv2
  have b: "lamp example_generateText failing_generateObject example_stringify
        example_object_config example_promptFn ''red'' (0, example_terminal)
       = (Inl (Thrown ''schema mismatch''), (Suc 0, example_terminal))"
    and d: "run ?ex example_now failing_invoker 0 = (Inl (Thrown ''aborted''), 6)"
    by simp_all
  from a b c d g go ts show ?thesis by simp
qed

end
